theory Spec2Isabelle
  imports Complex_Main "HOL-Library.Log_Nat"
begin

section \<open>Python values used by the services\<close>

subsection \<open>Exceptions\<close>

text \<open>
  A function that can raise returns \<open>py_exception + 'a\<close>; \<open>Inl\<close> carries the exception
  that propagates to the caller.
\<close>

datatype py_exception =
    KeyError string
  | ValueError string
  | TypeError string
  | AttributeError string
  | NameError string
  | IndexError string
  | JSONDecodeError string
  | ToolError string
  | APIError string
  | FileNotFoundError string

subsection \<open>Double-precision arithmetic\<close>

text \<open>
  A Python \<open>float\<close> is an IEEE-754 binary64 number. A finite double is modelled by the
  rational number it denotes; every arithmetic operation computes the exact rational
  result and rounds it to 53 significant bits, ties to even. Overflow, subnormal numbers,
  infinities and NaN are not modelled: the quantities computed here (keyword counts,
  seconds, minutes and percentages) are far inside the normal range.
\<close>

type_synonym pyfloat = rat

definition round_half_even :: "rat \<Rightarrow> int" where
  "round_half_even x =
     (let f = \<lfloor>x\<rfloor>; r = x - of_int f in
      if r < 1 / 2 then f
      else if 1 / 2 < r then f + 1
      else if even f then f else f + 1)"

definition binary_exponent :: "rat \<Rightarrow> int" where
  \<comment> \<open>for \<open>0 < x\<close>: the \<open>e\<close> with \<open>2 powi e \<le> x < 2 powi (e + 1)\<close>\<close>
  "binary_exponent x =
     (case quotient_of x of (p, q) \<Rightarrow>
        let d = bitlen p - bitlen q in if 2 powi d \<le> x then d else d - 1)"

definition to_double :: "rat \<Rightarrow> pyfloat" where
  "to_double x =
     (if x = 0 then 0
      else let ulp = 2 powi (binary_exponent \<bar>x\<bar> - 52)
           in of_int (round_half_even (x / ulp)) * ulp)"

definition int_truediv :: "int \<Rightarrow> int \<Rightarrow> pyfloat" where
  \<comment> \<open>\<open>a / b\<close> on two ints with \<open>b \<noteq> 0\<close>: the correctly rounded quotient\<close>
  "int_truediv a b = to_double (of_int a / of_int b)"

definition float_mul :: "pyfloat \<Rightarrow> pyfloat \<Rightarrow> pyfloat" where
  "float_mul x y = to_double (x * y)"


definition int_of_float :: "pyfloat \<Rightarrow> int" where
  \<comment> \<open>\<open>int(x)\<close> truncates toward zero\<close>
  "int_of_float x = (if 0 \<le> x then \<lfloor>x\<rfloor> else \<lceil>x\<rceil>)"


subsection \<open>Strings\<close>

text \<open>
  A Python \<open>str\<close> is a sequence of code points; the model covers the code points below 256,
  one \<open>char\<close> each. \<open>str.lower\<close> and \<open>str.upper\<close> on that range change the ASCII
  letters and the Latin-1 letters \<open>0xC0..0xDE\<close> / \<open>0xE0..0xFE\<close> (not the signs \<open>0xD7\<close>
  and \<open>0xF7\<close>).
\<close>

definition char_lower :: "char \<Rightarrow> char" where
  "char_lower c =
     (let n = (of_char c :: nat) in
      if (65 \<le> n \<and> n \<le> 90) \<or> (192 \<le> n \<and> n \<le> 222 \<and> n \<noteq> 215)
      then char_of (n + 32) else c)"

definition str_lower :: "string \<Rightarrow> string" where
  "str_lower s = map char_lower s"

definition char_upper_ascii :: "char \<Rightarrow> char" where
  "char_upper_ascii c =
     (let n = (of_char c :: nat) in
      if 97 \<le> n \<and> n \<le> 122 then char_of (n - 32) else c)"

definition str_upper_ascii :: "string \<Rightarrow> string" where
  \<comment> \<open>\<open>str.upper\<close> on ASCII text, the only text it is applied to\<close>
  "str_upper_ascii s = map char_upper_ascii s"

fun starts_with :: "string \<Rightarrow> string \<Rightarrow> bool" where
  "starts_with text [] = True"
| "starts_with [] (k # ks) = False"
| "starts_with (c # cs) (k # ks) = (c = k \<and> starts_with cs ks)"

fun str_contains :: "string \<Rightarrow> string \<Rightarrow> bool" where
  \<comment> \<open>\<open>keyword in text\<close>\<close>
  "str_contains [] keyword = (keyword = [])"
| "str_contains (c # cs) keyword = (starts_with (c # cs) keyword \<or> str_contains cs keyword)"

section \<open>Activity classifier\<close>

subsection \<open>\<open>activity_tracker.py\<close>\<close>

datatype ActivityCategory = WORK | COMMUNICATION | BREAKS | UNCATEGORIZED

fun category_value :: "ActivityCategory \<Rightarrow> string" where
  "category_value WORK = ''work''"
| "category_value COMMUNICATION = ''communication''"
| "category_value BREAKS = ''breaks''"
| "category_value UNCATEGORIZED = ''uncategorized''"

definition all_categories :: "ActivityCategory list" where
  \<comment> \<open>iteration order of the enum\<close>
  "all_categories = [WORK, COMMUNICATION, BREAKS, UNCATEGORIZED]"

record 'dt ActivityEntry =
  timestamp :: 'dt
  app_name :: string
  window_title :: string
  content_summary :: string
  user_activity :: string
  category :: ActivityCategory
  confidence :: pyfloat

definition category_keywords :: "(ActivityCategory \<times> string list) list" where
  \<comment> \<open>the dict built in \<open>ActivityTracker.__init__\<close>, in insertion order\<close>
  "category_keywords =
    [(WORK,
       [''coding'', ''programming'', ''development'', ''writing'', ''editing'',
        ''designing'', ''analyzing'', ''researching'', ''planning'', ''documenting'',
        ''debugging'', ''testing'', ''reviewing'', ''spreadsheet'', ''excel'',
        ''word'', ''document'', ''report'', ''presentation'', ''slide'', ''data'',
        ''analysis'', ''calculation'', ''modeling'', ''database'', ''sql'']),
     (COMMUNICATION,
       [''meeting'', ''call'', ''video'', ''conference'', ''chat'', ''message'',
        ''email'', ''outlook'', ''teams'', ''slack'', ''discord'', ''zoom'',
        ''skype'', ''webex'', ''discussion'', ''collaboration'', ''review'',
        ''feedback'', ''planning'', ''standup'', ''sync'', ''1:1'']),
     (BREAKS,
       [''break'', ''lunch'', ''coffee'', ''rest'', ''relax'', ''music'', ''video'',
        ''youtube'', ''netflix'', ''game'', ''social media'', ''facebook'',
        ''twitter'', ''instagram'', ''tiktok'', ''reddit'', ''news'', ''entertainment''])]"

fun keyword_score :: "string list \<Rightarrow> string \<Rightarrow> int \<Rightarrow> int" where
  \<comment> \<open>the inner loop: \<open>score += 1\<close> for every keyword found in the text\<close>
  "keyword_score [] text score = score"
| "keyword_score (keyword # keywords) text score =
     keyword_score keywords text (if str_contains text keyword then score + 1 else score)"

fun max_key_from :: "'k \<Rightarrow> int \<Rightarrow> ('k \<times> int) list \<Rightarrow> 'k" where
  "max_key_from best v [] = best"
| "max_key_from best v ((k, w) # rest) =
     (if v < w then max_key_from k w rest else max_key_from best v rest)"

fun max_key :: "('k \<times> int) list \<Rightarrow> 'k option" where
  \<comment> \<open>\<open>max(d, key=d.get)\<close>: the first key, in insertion order, whose value is largest;
      \<open>None\<close> stands for the \<open>ValueError\<close> on an empty dict\<close>
  "max_key [] = None"
| "max_key ((k, v) # rest) = Some (max_key_from k v rest)"

fun dict_get :: "('k \<times> 'v) list \<Rightarrow> 'k \<Rightarrow> 'v option" where
  \<comment> \<open>\<open>d.get(k)\<close> on a dict held as its items in insertion order\<close>
  "dict_get [] k = None"
| "dict_get ((k', v) # rest) k = (if k' = k then Some v else dict_get rest k)"

definition dict_index :: "('k \<Rightarrow> string) \<Rightarrow> ('k \<times> 'v) list \<Rightarrow> 'k \<Rightarrow> py_exception + 'v" where
  \<comment> \<open>\<open>d[k]\<close>; the first argument prints the key for the \<open>KeyError\<close>\<close>
  "dict_index show_key d k =
     (case dict_get d k of None \<Rightarrow> Inl (KeyError (show_key k)) | Some v \<Rightarrow> Inr v)"

definition text_to_analyze :: "string \<Rightarrow> string \<Rightarrow> string \<Rightarrow> string" where
  \<comment> \<open>\<open>f"{user_activity} {content_summary} {window_title}".lower()\<close>\<close>
  "text_to_analyze ua cs wt = str_lower (ua @ '' '' @ cs @ '' '' @ wt)"

definition confidence_threshold :: pyfloat where
  \<comment> \<open>the literal \<open>0.3\<close>\<close>
  "confidence_threshold = to_double (3 / 10)"

definition tracker_categorize_activity ::
    "('dt, 'more) ActivityEntry_scheme \<Rightarrow> py_exception + (ActivityCategory \<times> pyfloat)" where
  "tracker_categorize_activity entry =
     (let text = text_to_analyze (user_activity entry) (content_summary entry) (window_title entry);
          category_scores = map (\<lambda>(cat, keywords). (cat, keyword_score keywords text 0))
                                category_keywords
      in if category_scores = [] then Inr (UNCATEGORIZED, 0)
         else
           case max_key category_scores of
             None \<Rightarrow> Inl (ValueError ''max() arg is an empty sequence'')
           | Some best_category \<Rightarrow>
            (case dict_index category_value category_scores best_category of
               Inl e \<Rightarrow> Inl e
             | Inr max_score \<Rightarrow>
                (case dict_index category_value category_keywords best_category of
                   Inl e \<Rightarrow> Inl e
                 | Inr keywords \<Rightarrow>
                     let max_possible_score = int (length keywords);
                         conf = (if max_possible_score > 0
                                 then int_truediv max_score max_possible_score else 0)
                     in if conf < confidence_threshold then Inr (UNCATEGORIZED, conf)
                        else Inr (best_category, conf))))"

subsection \<open>\<open>improved_activity_tracker.py\<close>\<close>

definition WORK_KEYWORDS :: "string list" where
  "WORK_KEYWORDS =
     [''coding'', ''programming'', ''development'', ''writing'', ''editing'',
      ''designing'', ''analyzing'', ''researching'', ''planning'', ''documenting'',
      ''debugging'', ''testing'', ''reviewing'', ''spreadsheet'', ''excel'',
      ''word'', ''document'', ''report'', ''presentation'', ''slide'', ''data'',
      ''analysis'', ''calculation'', ''modeling'', ''database'', ''sql'']"

definition COMMUNICATION_KEYWORDS :: "string list" where
  "COMMUNICATION_KEYWORDS =
     [''meeting'', ''call'', ''video'', ''conference'', ''chat'', ''message'',
      ''email'', ''outlook'', ''teams'', ''slack'', ''discord'', ''zoom'',
      ''skype'', ''webex'', ''discussion'', ''collaboration'', ''review'',
      ''feedback'', ''planning'', ''standup'', ''sync'', ''1:1'']"

definition BREAKS_KEYWORDS :: "string list" where
  "BREAKS_KEYWORDS =
     [''break'', ''lunch'', ''coffee'', ''rest'', ''relax'', ''music'', ''video'',
      ''youtube'', ''netflix'', ''game'', ''social media'', ''facebook'',
      ''twitter'', ''instagram'', ''tiktok'', ''reddit'', ''news'', ''entertainment'']"

definition module_globals :: "(string \<times> string list) list" where
  \<comment> \<open>the names \<open>eval\<close> can resolve to a keyword list\<close>
  "module_globals =
     [(''WORK_KEYWORDS'', WORK_KEYWORDS),
      (''COMMUNICATION_KEYWORDS'', COMMUNICATION_KEYWORDS),
      (''BREAKS_KEYWORDS'', BREAKS_KEYWORDS)]"

definition count_keywords :: "string list \<Rightarrow> string \<Rightarrow> int" where
  \<comment> \<open>\<open>sum(1 for keyword in KEYWORDS if keyword in text)\<close>\<close>
  "count_keywords keywords text = (\<Sum>keyword \<leftarrow> filter (str_contains text) keywords. 1)"

definition categorize_activity ::
    "string \<Rightarrow> string \<Rightarrow> string \<Rightarrow> py_exception + (string \<times> pyfloat)" where
  "categorize_activity ua cs wt =
     (let text = text_to_analyze ua cs wt;
          category_scores =
            [(''work'', count_keywords WORK_KEYWORDS text),
             (''communication'', count_keywords COMMUNICATION_KEYWORDS text),
             (''breaks'', count_keywords BREAKS_KEYWORDS text)]
      in if \<not> list_ex (\<lambda>(k, v). v \<noteq> 0) category_scores then Inr (''uncategorized'', 0)
         else
           case max_key category_scores of
             None \<Rightarrow> Inl (ValueError ''max() arg is an empty sequence'')
           | Some best_category \<Rightarrow>
              (case dict_index id category_scores best_category of
                 Inl e \<Rightarrow> Inl e
               | Inr max_score \<Rightarrow>
                  (let name = str_upper_ascii best_category @ ''_KEYWORDS''
                   in case dict_get module_globals name of
                        None \<Rightarrow> Inl (NameError name)
                      | Some keywords \<Rightarrow>
                          let max_possible_score = int (length keywords);
                              conf = (if max_possible_score > 0
                                      then int_truediv max_score max_possible_score else 0)
                          in if conf < confidence_threshold then Inr (''uncategorized'', conf)
                             else Inr (best_category, conf))))"

section \<open>Activity aggregator\<close>

subsection \<open>Dicts in insertion order\<close>

fun dict_set :: "('k \<times> 'v) list \<Rightarrow> 'k \<Rightarrow> 'v \<Rightarrow> ('k \<times> 'v) list" where
  \<comment> \<open>\<open>d[k] = v\<close>: an existing key keeps its place, a new key goes last\<close>
  "dict_set [] k v = [(k, v)]"
| "dict_set ((k', v') # rest) k v =
     (if k' = k then (k, v) # rest else (k', v') # dict_set rest k v)"

definition dict_get_default :: "('k \<times> 'v) list \<Rightarrow> 'k \<Rightarrow> 'v \<Rightarrow> 'v" where
  \<comment> \<open>\<open>d.get(k, default)\<close>\<close>
  "dict_get_default d k dflt = (case dict_get d k of None \<Rightarrow> dflt | Some v \<Rightarrow> v)"

subsection \<open>Summaries\<close>

record app_usage =
  app :: string
  app_minutes :: int

record category_share =
  minutes :: int
  percentage :: int

record 'dt ActivitySummary =
  date :: string
  total_tracked_minutes :: int
  apps_used :: "app_usage list"
  time_distribution :: "(string \<times> category_share) list"
  categorized_activities :: "(ActivityCategory \<times> 'dt ActivityEntry list) list"
  total_activities :: int

definition SNAPSHOT_INTERVAL :: int where
  "SNAPSHOT_INTERVAL = 10"

definition filter_activities_by_time ::
    "'dt::linorder ActivityEntry list \<Rightarrow> 'dt option \<Rightarrow> 'dt option
       \<Rightarrow> py_exception + 'dt ActivityEntry list" where
  \<comment> \<open>\<open>activity_log[0]\<close> and \<open>activity_log[-1]\<close> raise \<open>IndexError\<close> on an empty log\<close>
  "filter_activities_by_time activity_log start_time end_time =
     (case (case start_time of
              None \<Rightarrow> (case activity_log of
                           [] \<Rightarrow> Inl (IndexError ''list index out of range'')
                         | first # _ \<Rightarrow> Inr (timestamp first))
            | Some s \<Rightarrow> Inr s) of
        Inl e \<Rightarrow> Inl e
      | Inr t0 \<Rightarrow>
         (case (case end_time of
                  None \<Rightarrow> (if activity_log = [] then Inl (IndexError ''list index out of range'')
                            else Inr (timestamp (last activity_log)))
                | Some t \<Rightarrow> Inr t) of
            Inl e \<Rightarrow> Inl e
          | Inr t1 \<Rightarrow>
              Inr (filter (\<lambda>entry. t0 \<le> timestamp entry \<and> timestamp entry \<le> t1)
                     activity_log)))"

definition calculate_total_minutes :: "'dt ActivityEntry list \<Rightarrow> int" where
  \<comment> \<open>\<open>int(len(activities) * (SNAPSHOT_INTERVAL / 60))\<close>\<close>
  "calculate_total_minutes activities =
     (if activities = [] then 0
      else int_of_float
             (float_mul (to_double (of_int (int (length activities))))
                        (int_truediv SNAPSHOT_INTERVAL 60)))"

fun app_times_loop ::
    "'dt ActivityEntry list \<Rightarrow> (string \<times> int) list \<Rightarrow> (string \<times> int) list" where
  "app_times_loop [] app_times = app_times"
| "app_times_loop (entry # rest) app_times =
     app_times_loop rest
       (dict_set app_times (app_name entry)
          (dict_get_default app_times (app_name entry) 0 + SNAPSHOT_INTERVAL))"

definition calculate_apps_used :: "'dt ActivityEntry list \<Rightarrow> app_usage list" where
  "calculate_apps_used activities =
     map (\<lambda>(a, duration). \<lparr>app = a, app_minutes = duration div 60\<rparr>)
         (app_times_loop activities [])"

fun category_times_loop ::
    "'dt ActivityEntry list \<Rightarrow> (ActivityCategory \<times> int) list
       \<Rightarrow> py_exception + (ActivityCategory \<times> int) list" where
  \<comment> \<open>\<open>category_times[entry.category] += SNAPSHOT_INTERVAL\<close>\<close>
  "category_times_loop [] category_times = Inr category_times"
| "category_times_loop (entry # rest) category_times =
     (case dict_index category_value category_times (category entry) of
        Inl e \<Rightarrow> Inl e
      | Inr seconds \<Rightarrow>
          category_times_loop rest
            (dict_set category_times (category entry) (seconds + SNAPSHOT_INTERVAL)))"

definition category_percentage :: "int \<Rightarrow> int \<Rightarrow> int" where
  \<comment> \<open>\<open>int((seconds / (total_minutes * 60)) * 100) if total_minutes > 0 else 0\<close>\<close>
  "category_percentage seconds total_minutes =
     (if total_minutes > 0
      then int_of_float (float_mul (int_truediv seconds (total_minutes * 60)) (to_double 100))
      else 0)"

definition calculate_time_distribution ::
    "'dt ActivityEntry list \<Rightarrow> int \<Rightarrow> py_exception + (string \<times> category_share) list" where
  "calculate_time_distribution activities total_minutes =
     (case category_times_loop activities (map (\<lambda>c. (c, 0)) all_categories) of
        Inl e \<Rightarrow> Inl e
      | Inr category_times \<Rightarrow>
          Inr (map (\<lambda>(c, seconds).
                      (category_value c,
                       \<lparr>minutes = seconds div 60,
                        percentage = category_percentage seconds total_minutes\<rparr>))
                   category_times))"

definition group_by_category ::
    "'dt ActivityEntry list \<Rightarrow> (ActivityCategory \<times> 'dt ActivityEntry list) list" where
  "group_by_category activities =
     map (\<lambda>c. (c, filter (\<lambda>entry. category entry = c) activities)) all_categories"

definition create_empty_summary :: "string \<Rightarrow> 'dt ActivitySummary" where
  "create_empty_summary today =
     \<lparr>date = today, total_tracked_minutes = 0, apps_used = [],
      time_distribution =
        map (\<lambda>c. (category_value c, \<lparr>minutes = 0, percentage = 0\<rparr>)) all_categories,
      categorized_activities = map (\<lambda>c. (c, [])) all_categories,
      total_activities = 0\<rparr>"

definition get_summary ::
    "string \<Rightarrow> 'dt::linorder ActivityEntry list \<Rightarrow> 'dt option \<Rightarrow> 'dt option
       \<Rightarrow> py_exception + 'dt ActivitySummary" where
  \<comment> \<open>the first argument is \<open>datetime.now().strftime("%Y-%m-%d")\<close>, the second the
      tracker's \<open>activity_log\<close>\<close>
  "get_summary today activity_log start_time end_time =
     (if activity_log = [] then Inr (create_empty_summary today)
      else
        case filter_activities_by_time activity_log start_time end_time of
          Inl e \<Rightarrow> Inl e
        | Inr filtered_activities \<Rightarrow>
            if filtered_activities = [] then Inr (create_empty_summary today)
            else
              let total_minutes = calculate_total_minutes filtered_activities;
                  used = calculate_apps_used filtered_activities
              in case calculate_time_distribution filtered_activities total_minutes of
                   Inl e \<Rightarrow> Inl e
                 | Inr distribution \<Rightarrow>
                     Inr \<lparr>date = today,
                          total_tracked_minutes = total_minutes,
                          apps_used = used,
                          time_distribution = distribution,
                          categorized_activities = group_by_category filtered_activities,
                          total_activities = int (length filtered_activities)\<rparr>)"

subsection \<open>\<open>get_productivity_insights\<close> in \<open>activity_tools.py\<close>\<close>









section \<open>Persistence of the activity log\<close>

subsection \<open>JSON documents and files\<close>

text \<open>
  \<open>json\<close> is what \<open>json.load\<close> returns and what \<open>json.dump\<close> accepts: \<open>None\<close>, booleans,
  ints, finite floats, strings, lists, and dicts with string keys (held as their items in
  insertion order). A file either does not exist, holds text that is not JSON, or holds a
  JSON document; \<open>json.dump\<close> followed by \<open>json.load\<close> gives the document back, so a file
  is modelled by the document it holds and not by its text.
\<close>

datatype json =
    JNull
  | JBool bool
  | JInt int
  | JFloat pyfloat
  | JStr string
  | JArr "json list"
  | JObj "(string \<times> json) list"

datatype file_content = NoFile | NotJSON | JSONDoc json

type_synonym filesystem = "string \<Rightarrow> file_content"

definition json_load_file :: "filesystem \<Rightarrow> string \<Rightarrow> py_exception + json" where
  \<comment> \<open>\<open>with open(filename, 'r') as f: data = json.load(f)\<close>\<close>
  "json_load_file fs filename =
     (case fs filename of
        NoFile \<Rightarrow> Inl (FileNotFoundError filename)
      | NotJSON \<Rightarrow> Inl (JSONDecodeError filename)
      | JSONDoc data \<Rightarrow> Inr data)"

definition json_dump_file :: "filesystem \<Rightarrow> string \<Rightarrow> json \<Rightarrow> filesystem" where
  \<comment> \<open>\<open>with open(filename, 'w') as f: json.dump(data, f, indent=2)\<close>, on a writable path\<close>
  "json_dump_file fs filename data = fs(filename := JSONDoc data)"

fun subscript :: "json \<Rightarrow> string \<Rightarrow> py_exception + json" where
  \<comment> \<open>\<open>value[key]\<close> with a string key\<close>
  "subscript (JObj items) key =
     (case dict_get items key of None \<Rightarrow> Inl (KeyError key) | Some v \<Rightarrow> Inr v)"
| "subscript (JArr xs) key = Inl (TypeError ''list indices must be integers or slices, not str'')"
| "subscript (JStr s) key = Inl (TypeError ''string indices must be integers, not str'')"
| "subscript v key = Inl (TypeError ''object is not subscriptable'')"

fun iterate :: "json \<Rightarrow> py_exception + json list" where
  \<comment> \<open>the values a \<open>for\<close> loop over the value visits: the elements of a list, the keys of a
      dict, the characters of a string\<close>
  "iterate (JArr xs) = Inr xs"
| "iterate (JObj items) = Inr (map (\<lambda>(k, v). JStr k) items)"
| "iterate (JStr s) = Inr (map (\<lambda>c. JStr [c]) s)"
| "iterate v = Inl (TypeError ''object is not iterable'')"

subsection \<open>\<open>save_to_file\<close> and \<open>load_from_file\<close>\<close>

text \<open>
  The timestamps are values of a type \<open>'dt\<close> of datetimes; \<open>datetime.isoformat\<close> and
  \<open>datetime.fromisoformat\<close> are parameters of the two functions (\<open>None\<close> stands for the
  \<open>ValueError\<close> of \<open>fromisoformat\<close> on a string it does not accept).

  The dataclass \<open>ActivityEntry\<close> declares its text fields as \<open>str\<close> and its confidence as
  \<open>float\<close>, and so does the record. \<open>load_from_file\<close> stores whatever value the file holds
  under these keys without a check; a file with another type of value there has no typed
  entry, and the model reports it as \<open>OutsideTypedModel\<close>, which is not an exception of the
  source.
\<close>

datatype load_error = Raised py_exception | OutsideTypedModel string

definition ActivityCategory_of_value :: "json \<Rightarrow> py_exception + ActivityCategory" where
  \<comment> \<open>the enum lookup \<open>ActivityCategory(value)\<close>\<close>
  "ActivityCategory_of_value v =
     (if v = JStr ''work'' then Inr WORK
      else if v = JStr ''communication'' then Inr COMMUNICATION
      else if v = JStr ''breaks'' then Inr BREAKS
      else if v = JStr ''uncategorized'' then Inr UNCATEGORIZED
      else Inl (ValueError ''not a valid ActivityCategory''))"

definition entry_to_json :: "('dt \<Rightarrow> string) \<Rightarrow> 'dt ActivityEntry \<Rightarrow> json" where
  "entry_to_json isoformat entry =
     JObj [(''timestamp'', JStr (isoformat (timestamp entry))),
           (''app_name'', JStr (app_name entry)),
           (''window_title'', JStr (window_title entry)),
           (''content_summary'', JStr (content_summary entry)),
           (''user_activity'', JStr (user_activity entry)),
           (''category'', JStr (category_value (category entry))),
           (''confidence'', JFloat (confidence entry))]"

definition save_to_file ::
    "('dt \<Rightarrow> string) \<Rightarrow> filesystem \<Rightarrow> string \<Rightarrow> 'dt ActivityEntry list \<Rightarrow> filesystem" where
  \<comment> \<open>the last argument is the tracker's \<open>activity_log\<close>\<close>
  "save_to_file isoformat fs filename activity_log =
     json_dump_file fs filename
       (JObj [(''activities'', JArr (map (entry_to_json isoformat) activity_log))])"

definition text_field :: "json \<Rightarrow> string \<Rightarrow> load_error + string" where
  \<comment> \<open>\<open>entry_data[key]\<close> for a field declared \<open>str\<close>\<close>
  "text_field entry_data key =
     (case subscript entry_data key of
        Inl e \<Rightarrow> Inl (Raised e)
      | Inr (JStr s) \<Rightarrow> Inr s
      | Inr _ \<Rightarrow> Inl (OutsideTypedModel key))"

definition timestamp_field :: "(string \<Rightarrow> 'dt option) \<Rightarrow> json \<Rightarrow> load_error + 'dt" where
  \<comment> \<open>\<open>datetime.fromisoformat(entry_data["timestamp"])\<close>\<close>
  "timestamp_field fromisoformat entry_data =
     (case subscript entry_data ''timestamp'' of
        Inl e \<Rightarrow> Inl (Raised e)
      | Inr (JStr s) \<Rightarrow>
          (case fromisoformat s of
             None \<Rightarrow> Inl (Raised (ValueError (''Invalid isoformat string: '' @ s)))
           | Some t \<Rightarrow> Inr t)
      | Inr _ \<Rightarrow> Inl (Raised (TypeError ''fromisoformat: argument must be str'')))"

definition category_field :: "json \<Rightarrow> load_error + ActivityCategory" where
  \<comment> \<open>\<open>ActivityCategory(entry_data["category"])\<close>\<close>
  "category_field entry_data =
     (case subscript entry_data ''category'' of
        Inl e \<Rightarrow> Inl (Raised e)
      | Inr v \<Rightarrow>
          (case ActivityCategory_of_value v of
             Inl e \<Rightarrow> Inl (Raised e)
           | Inr c \<Rightarrow> Inr c))"

definition confidence_field :: "json \<Rightarrow> load_error + pyfloat" where
  \<comment> \<open>\<open>entry_data.get("confidence", 0.0)\<close>; reached only when \<open>entry_data\<close> is a dict\<close>
  "confidence_field entry_data =
     (case entry_data of
        JObj items \<Rightarrow>
          (case dict_get items ''confidence'' of
             None \<Rightarrow> Inr 0
           | Some (JFloat x) \<Rightarrow> Inr x
           | Some (JInt i) \<Rightarrow> Inr (of_int i)
           | Some _ \<Rightarrow> Inl (OutsideTypedModel ''confidence''))
      | _ \<Rightarrow> Inl (Raised (AttributeError ''get'')))"

definition entry_of_json ::
    "(string \<Rightarrow> 'dt option) \<Rightarrow> json \<Rightarrow> load_error + 'dt ActivityEntry" where
  \<comment> \<open>the constructor call of the loop body; its arguments are evaluated in order\<close>
  "entry_of_json fromisoformat entry_data =
     (case timestamp_field fromisoformat entry_data of Inl e \<Rightarrow> Inl e | Inr ts \<Rightarrow>
      case text_field entry_data ''app_name'' of Inl e \<Rightarrow> Inl e | Inr an \<Rightarrow>
      case text_field entry_data ''window_title'' of Inl e \<Rightarrow> Inl e | Inr wt \<Rightarrow>
      case text_field entry_data ''content_summary'' of Inl e \<Rightarrow> Inl e | Inr cs \<Rightarrow>
      case text_field entry_data ''user_activity'' of Inl e \<Rightarrow> Inl e | Inr ua \<Rightarrow>
      case category_field entry_data of Inl e \<Rightarrow> Inl e | Inr cat \<Rightarrow>
      case confidence_field entry_data of Inl e \<Rightarrow> Inl e | Inr conf \<Rightarrow>
        Inr \<lparr>timestamp = ts, app_name = an, window_title = wt, content_summary = cs,
             user_activity = ua, category = cat, confidence = conf\<rparr>)"

fun load_loop ::
    "(string \<Rightarrow> 'dt option) \<Rightarrow> json list \<Rightarrow> 'dt ActivityEntry list
       \<Rightarrow> load_error option \<times> 'dt ActivityEntry list" where
  \<comment> \<open>the \<open>for\<close> loop; the second component is \<open>self.activity_log\<close> when the loop ends or
      raises\<close>
  "load_loop fromisoformat [] activity_log = (None, activity_log)"
| "load_loop fromisoformat (entry_data # rest) activity_log =
     (case entry_of_json fromisoformat entry_data of
        Inl e \<Rightarrow> (Some e, activity_log)
      | Inr entry \<Rightarrow> load_loop fromisoformat rest (activity_log @ [entry]))"

definition load_from_file ::
    "(string \<Rightarrow> 'dt option) \<Rightarrow> filesystem \<Rightarrow> string \<Rightarrow> 'dt ActivityEntry list
       \<Rightarrow> load_error option \<times> 'dt ActivityEntry list" where
  \<comment> \<open>the last argument is the tracker's \<open>activity_log\<close> before the call; the result is the
      exception raised, if any, and the tracker's \<open>activity_log\<close> after the call\<close>
  "load_from_file fromisoformat fs filename activity_log =
     (case json_load_file fs filename of
        Inl e \<Rightarrow> (Some (Raised e), activity_log)
      | Inr data \<Rightarrow>
          (case data of
             JObj items \<Rightarrow>
               (case iterate (dict_get_default items ''activities'' (JArr [])) of
                  Inl e \<Rightarrow> (Some (Raised e), [])
                | Inr entries \<Rightarrow> load_loop fromisoformat entries [])
           | _ \<Rightarrow> (Some (Raised (AttributeError ''get'')), [])))"

subsection \<open>A sample of \<open>datetime\<close>\<close>

text \<open>
  Naive datetimes with whole seconds, and the two library functions on the form
  \<open>YYYY-MM-DDTHH:MM:SS\<close> that \<open>isoformat\<close> prints for them. Python's \<open>fromisoformat\<close>
  accepts further forms; the sample is used only on strings of this form.
\<close>

record naive_datetime =
  dt_year :: nat
  dt_month :: nat
  dt_day :: nat
  dt_hour :: nat
  dt_minute :: nat
  dt_second :: nat

definition digit_char :: "nat \<Rightarrow> char" where
  "digit_char d = char_of (48 + d)"

definition two_digits :: "nat \<Rightarrow> string" where
  "two_digits n = [digit_char (n div 10 mod 10), digit_char (n mod 10)]"

definition four_digits :: "nat \<Rightarrow> string" where
  "four_digits n = two_digits (n div 100) @ two_digits (n mod 100)"

definition naive_isoformat :: "naive_datetime \<Rightarrow> string" where
  "naive_isoformat t =
     four_digits (dt_year t) @ ''-'' @ two_digits (dt_month t) @ ''-'' @ two_digits (dt_day t)
       @ ''T'' @ two_digits (dt_hour t) @ '':'' @ two_digits (dt_minute t)
       @ '':'' @ two_digits (dt_second t)"

definition digit_value :: "char \<Rightarrow> nat option" where
  "digit_value c =
     (let n = (of_char c :: nat) in if 48 \<le> n \<and> n \<le> 57 then Some (n - 48) else None)"

fun number_of_digits :: "string \<Rightarrow> nat \<Rightarrow> nat option" where
  "number_of_digits [] acc = Some acc"
| "number_of_digits (c # cs) acc =
     (case digit_value c of None \<Rightarrow> None | Some d \<Rightarrow> number_of_digits cs (10 * acc + d))"

definition days_in_month :: "nat \<Rightarrow> nat \<Rightarrow> nat" where
  "days_in_month y m =
     (if m = 2 then (if y mod 4 = 0 \<and> (y mod 100 \<noteq> 0 \<or> y mod 400 = 0) then 29 else 28)
      else if m = 4 \<or> m = 6 \<or> m = 9 \<or> m = 11 then 30 else 31)"

definition naive_fromisoformat :: "string \<Rightarrow> naive_datetime option" where
  "naive_fromisoformat s =
     (if length s = 19 \<and> s ! 4 = CHR ''-'' \<and> s ! 7 = CHR ''-'' \<and> s ! 10 = CHR ''T''
         \<and> s ! 13 = CHR '':'' \<and> s ! 16 = CHR '':''
      then
        case (number_of_digits (take 4 s) 0, number_of_digits (take 2 (drop 5 s)) 0,
              number_of_digits (take 2 (drop 8 s)) 0, number_of_digits (take 2 (drop 11 s)) 0,
              number_of_digits (take 2 (drop 14 s)) 0, number_of_digits (take 2 (drop 17 s)) 0) of
          (Some y, Some m, Some d, Some h, Some mi, Some sec) \<Rightarrow>
            if 1 \<le> y \<and> 1 \<le> m \<and> m \<le> 12 \<and> 1 \<le> d \<and> d \<le> days_in_month y m
               \<and> h < 24 \<and> mi < 60 \<and> sec < 60
            then Some \<lparr>dt_year = y, dt_month = m, dt_day = d, dt_hour = h, dt_minute = mi,
                       dt_second = sec\<rparr>
            else None
        | _ \<Rightarrow> None
      else None)"

section \<open>Tools\<close>

subsection \<open>Callables and their signatures\<close>

text \<open>
  An annotation is a Python object; the model keeps what the code reads of it: its
  \<open>__name__\<close> (or, without that attribute, its \<open>str\<close>), its \<open>__origin__\<close> and \<open>__args__\<close> when
  it has them, and the text \<open>inspect\<close> prints for it in a signature. For instance
  \<open>Optional[int]\<close> is \<open>PyType ''Optional'' ''Optional[int]'' (Some Union) (Some [int, NoneType])\<close>.
\<close>

datatype origin = Union | ListOrigin | DictOrigin | OtherOrigin

datatype py_type =
  PyType (type_name: string) (type_printed: string) (type_origin: "origin option")
         (type_args: "py_type list option")

definition class_type :: "string \<Rightarrow> py_type" where
  \<comment> \<open>a plain class, such as \<open>int\<close>\<close>
  "class_type n = PyType n n None None"

definition NoneType :: py_type where
  "NoneType = class_type ''NoneType''"

definition empty_annotation :: py_type where
  \<comment> \<open>\<open>inspect.Parameter.empty\<close>, the annotation of a parameter without one\<close>
  "empty_annotation = PyType ''_empty'' ''inspect._empty'' None None"

datatype param_kind =
  POSITIONAL_ONLY | POSITIONAL_OR_KEYWORD | VAR_POSITIONAL | KEYWORD_ONLY | VAR_KEYWORD

text \<open>
  Of a default value the code reads two things: its \<open>repr\<close>, when the signature is
  printed, and the truth value of \<open>default == Parameter.empty\<close>. The comparison is the
  default's own \<open>__eq__\<close>: for ordinary values it is false, for a value such as
  \<open>unittest.mock.ANY\<close> it is true, and it can raise (or give a value whose truth value
  raises, as an array does).
\<close>

datatype eq_outcome = CompareFalse | CompareTrue | CompareRaises py_exception

datatype default_value = Default (default_repr: string) (equals_empty: eq_outcome)

record param =
  param_name :: string
  param_kind :: param_kind
  param_annotation :: py_type
  param_default :: "default_value option"  \<comment> \<open>\<open>None\<close> for \<open>Parameter.empty\<close>\<close>

datatype call_result =
    Returns json        \<comment> \<open>a value that \<open>json.dumps\<close> can serialise\<close>
  | ReturnsOther        \<comment> \<open>a value that \<open>json.dumps\<close> cannot serialise\<close>
  | Raises string       \<comment> \<open>an exception, with its message\<close>

record py_function =
  func_name :: string                                  \<comment> \<open>\<open>__name__\<close>\<close>
  func_doc :: "string option"                          \<comment> \<open>\<open>__doc__\<close>\<close>
  func_params :: "param list"                          \<comment> \<open>\<open>signature(func).parameters\<close>\<close>
  func_return :: py_type                               \<comment> \<open>the return annotation\<close>
  func_call :: "(string \<times> json) list \<Rightarrow> call_result"   \<comment> \<open>\<open>func(**kwargs)\<close>\<close>

fun join :: "string \<Rightarrow> string list \<Rightarrow> string" where
  \<comment> \<open>\<open>sep.join(parts)\<close>\<close>
  "join sep [] = []"
| "join sep [x] = x"
| "join sep (x # y # rest) = x @ sep @ join sep (y # rest)"

definition format_param :: "param \<Rightarrow> string" where
  \<comment> \<open>\<open>str(param)\<close>\<close>
  "format_param p =
     (let formatted0 = param_name p;
          formatted1 =
            (if param_annotation p \<noteq> empty_annotation
             then formatted0 @ '': '' @ type_printed (param_annotation p) else formatted0);
          formatted2 =
            (case param_default p of
               None \<Rightarrow> formatted1
             | Some d \<Rightarrow>
                 if param_annotation p \<noteq> empty_annotation
                 then formatted1 @ '' = '' @ default_repr d
                 else formatted1 @ ''='' @ default_repr d)
      in if param_kind p = VAR_POSITIONAL then ''*'' @ formatted2
         else if param_kind p = VAR_KEYWORD then ''**'' @ formatted2
         else formatted2)"

fun render_params :: "param list \<Rightarrow> bool \<Rightarrow> bool \<Rightarrow> string list" where
  \<comment> \<open>the loop of \<open>Signature.__str__\<close>; the flags are \<open>render_pos_only_separator\<close> and
      \<open>render_kw_only_separator\<close>\<close>
  "render_params [] pos_sep kw_sep = (if pos_sep then [''/''] else [])"
| "render_params (p # ps) pos_sep kw_sep =
     (let k = param_kind p;
          slash = (if k \<noteq> POSITIONAL_ONLY \<and> pos_sep then [''/''] else []);
          pos_sep' = (k = POSITIONAL_ONLY);
          star = (if k = KEYWORD_ONLY \<and> kw_sep then [''*''] else []);
          kw_sep' = (if k = VAR_POSITIONAL then False
                     else if k = KEYWORD_ONLY \<and> kw_sep then False else kw_sep)
      in slash @ star @ [format_param p] @ render_params ps pos_sep' kw_sep')"

definition signature_str :: "py_function \<Rightarrow> string" where
  \<comment> \<open>\<open>str(signature(func))\<close>\<close>
  "signature_str f =
     ''('' @ join '', '' (render_params (func_params f) False True) @ '')''
       @ (if func_return f \<noteq> empty_annotation
          then '' -> '' @ type_printed (func_return f) else [])"

subsection \<open>\<open>Tool\<close>\<close>

record Tool =
  name :: string
  description :: string
  parameters :: json
  func :: py_function

fun dict_keys :: "json \<Rightarrow> py_exception + string list" where
  \<comment> \<open>\<open>value.keys()\<close>\<close>
  "dict_keys (JObj items) = Inr (map fst items)"
| "dict_keys v = Inl (AttributeError ''keys'')"

definition schema_property_names :: "json \<Rightarrow> py_exception + string list" where
  \<comment> \<open>\<open>self.parameters.get("properties", {}).keys()\<close>\<close>
  "schema_property_names params =
     (case params of
        JObj items \<Rightarrow> dict_keys (dict_get_default items ''properties'' (JObj []))
      | _ \<Rightarrow> Inl (AttributeError ''get''))"

definition validate_signature :: "Tool \<Rightarrow> py_exception + unit" where
  \<comment> \<open>\<open>Tool._validate_signature\<close>; the names in the messages are joined in the order of the
      schema and of the signature, where the source joins a set\<close>
  "validate_signature tool =
     (let param_names = map param_name (func_params (func tool))
      in case schema_property_names (parameters tool) of
           Inl e \<Rightarrow> Inl e
         | Inr schema_params \<Rightarrow>
             let missing = filter (\<lambda>n. n \<notin> set param_names) schema_params;
                 extra = filter (\<lambda>n. n \<notin> set schema_params) param_names
             in if missing \<noteq> []
                then Inl (ToolError (''Function '' @ name tool @ '' is missing parameters: ''
                                       @ join '', '' missing))
                else if extra \<noteq> [] \<and> \<not> str_contains (signature_str (func tool)) ''**''
                then Inl (ToolError (''Function '' @ name tool
                                       @ '' has extra parameters not in schema: ''
                                       @ join '', '' extra))
                else Inr ())"

definition make_Tool :: "string \<Rightarrow> string \<Rightarrow> json \<Rightarrow> py_function \<Rightarrow> py_exception + Tool" where
  \<comment> \<open>the constructor \<open>Tool(name, description, parameters, func)\<close> with its \<open>__post_init__\<close>\<close>
  "make_Tool n d ps f =
     (let tool = \<lparr>name = n, description = d, parameters = ps, func = f\<rparr>
      in case validate_signature tool of Inl e \<Rightarrow> Inl e | Inr _ \<Rightarrow> Inr tool)"

definition binds_self :: "(string \<times> json) list \<Rightarrow> bool" where
  \<comment> \<open>the keyword arguments hold the name of the method's own first parameter\<close>
  "binds_self kwargs = (''self'' \<in> set (map fst kwargs))"

definition Tool_run :: "Tool \<Rightarrow> (string \<times> json) list \<Rightarrow> py_exception + call_result" where
  \<comment> \<open>the call \<open>tool.run(**kwargs)\<close> of the method \<open>run(self, **kwargs)\<close>: a keyword \<open>self\<close>
      is a second value for the first parameter, a \<open>TypeError\<close> raised before the body is
      entered; in the body every exception of the handler becomes a \<open>ToolError\<close>, so the
      result is never \<open>Raises\<close>\<close>
  "Tool_run tool kwargs =
     (if binds_self kwargs
      then Inl (TypeError ''run() got multiple values for argument self'')
      else case func_call (func tool) kwargs of
             Raises msg \<Rightarrow>
               Inl (ToolError (''Error running tool '' @ name tool @ '': '' @ msg))
           | r \<Rightarrow> Inr r)"

definition to_dict :: "Tool \<Rightarrow> json" where
  "to_dict tool =
     JObj [(''type'', JStr ''function''),
           (''function'', JObj [(''name'', JStr (name tool)),
                                (''description'', JStr (description tool)),
                                (''parameters'', parameters tool)])]"

subsection \<open>\<open>Tool._parameters_from_type_hints\<close>\<close>

definition type_mapping :: "(string \<times> json) list" where
  "type_mapping =
     [(''str'', JObj [(''type'', JStr ''string'')]),
      (''int'', JObj [(''type'', JStr ''integer'')]),
      (''float'', JObj [(''type'', JStr ''number'')]),
      (''bool'', JObj [(''type'', JStr ''boolean'')]),
      (''list'', JObj [(''type'', JStr ''array''),
                       (''items'', JObj [(''type'', JStr ''string'')])]),
      (''dict'', JObj [(''type'', JStr ''object'')])]"

definition unwrap_optional :: "py_type \<Rightarrow> py_exception + py_type" where
  \<comment> \<open>the \<open>Optional\<close> step: \<open>Union[T, None]\<close> becomes \<open>T\<close>\<close>
  "unwrap_optional param_type =
     (if type_origin param_type = Some Union
      then case type_args param_type of
             None \<Rightarrow> Inl (AttributeError ''__args__'')
           | Some args \<Rightarrow>
               (case filter (\<lambda>t. t \<noteq> NoneType) args of
                  [t] \<Rightarrow> Inr t
                | _ \<Rightarrow> Inr param_type)
      else Inr param_type)"

definition basic_schema :: "py_type \<Rightarrow> py_exception + json" where
  \<comment> \<open>the \<open>if\<close>/\<open>elif\<close>/\<open>else\<close> chain on the unwrapped annotation\<close>
  "basic_schema param_type =
     (case dict_get type_mapping (type_name param_type) of
        Some schema \<Rightarrow> Inr schema
      | None \<Rightarrow>
         (case type_origin param_type of
            None \<Rightarrow> Inr (JObj [(''type'', JStr ''string'')])
          | Some origin \<Rightarrow>
             (case type_args param_type of
                None \<Rightarrow> Inr (JObj [(''type'', JStr ''string'')])
              | Some args \<Rightarrow>
                  if origin = ListOrigin then
                    (case args of
                       [] \<Rightarrow> Inl (IndexError ''tuple index out of range'')
                     | item_type # _ \<Rightarrow>
                         Inr (JObj [(''type'', JStr ''array''),
                                    (''items'',
                                     dict_get_default type_mapping (type_name item_type)
                                       (JObj [(''type'', JStr ''string'')]))]))
                  else if origin = DictOrigin then
                    (case args of
                       [key_type, value_type] \<Rightarrow>
                         Inr (JObj [(''type'', JStr ''object''),
                                    (''additionalProperties'',
                                     dict_get_default type_mapping (type_name value_type)
                                       (JObj [(''type'', JStr ''string'')]))])
                     | _ \<Rightarrow> Inl (ValueError ''wrong number of values to unpack''))
                  else Inr (JObj [(''type'', JStr ''string'')]))))"

definition is_space :: "char \<Rightarrow> bool" where
  \<comment> \<open>\<open>str.isspace\<close> on the code points below 256\<close>
  "is_space c =
     (let n = (of_char c :: nat)
      in (9 \<le> n \<and> n \<le> 13) \<or> (28 \<le> n \<and> n \<le> 32) \<or> n = 133 \<or> n = 160)"

definition str_strip :: "string \<Rightarrow> string" where
  "str_strip s = rev (dropWhile is_space (rev (dropWhile is_space s)))"

fun split_lines :: "string \<Rightarrow> string \<Rightarrow> string list" where
  \<comment> \<open>\<open>s.split('\n')\<close>; the second argument is the line read so far\<close>
  "split_lines [] line = [line]"
| "split_lines (c # cs) line =
     (if c = CHR 0x0A then line # split_lines cs [] else split_lines cs (line @ [c]))"

fun after_first_colon :: "string \<Rightarrow> string option" where
  \<comment> \<open>\<open>line.split(':', 1)[1]\<close>; \<open>None\<close> stands for the \<open>IndexError\<close> of a line without colon\<close>
  "after_first_colon [] = None"
| "after_first_colon (c # cs) = (if c = CHR '':'' then Some cs else after_first_colon cs)"

fun describe_loop :: "string \<Rightarrow> string list \<Rightarrow> json \<Rightarrow> py_exception + json" where
  \<comment> \<open>the loop over the lines of the docstring; the schema is a dict\<close>
  "describe_loop pname [] schema = Inr schema"
| "describe_loop pname (line # rest) schema =
     (if starts_with (str_strip line) (pname @ '':'')
      then case after_first_colon line of
             None \<Rightarrow> Inl (IndexError ''list index out of range'')
           | Some d \<Rightarrow>
               (case schema of
                  JObj items \<Rightarrow>
                    describe_loop pname rest
                      (JObj (dict_set items ''description'' (JStr (str_strip d))))
                | _ \<Rightarrow> Inl (TypeError ''object does not support item assignment''))
      else describe_loop pname rest schema)"

definition param_schema ::
    "(string \<Rightarrow> string) \<Rightarrow> string option \<Rightarrow> param \<Rightarrow> py_exception + json" where
  \<comment> \<open>the schema of one parameter; the first argument is \<open>inspect.cleandoc\<close>, the second
      the docstring of the function\<close>
  "param_schema cleandoc doc p =
     (case unwrap_optional (param_annotation p) of
        Inl e \<Rightarrow> Inl e
      | Inr param_type \<Rightarrow>
         (case basic_schema param_type of
            Inl e \<Rightarrow> Inl e
          | Inr schema \<Rightarrow>
              (case doc of
                 None \<Rightarrow> Inr schema
               | Some d \<Rightarrow>
                   if d = [] then Inr schema
                   else describe_loop (param_name p) (split_lines (cleandoc d) []) schema)))"

definition default_equals_empty :: "param \<Rightarrow> eq_outcome" where
  \<comment> \<open>\<open>param.default == param.empty\<close>, as the \<open>if\<close> statement reads it\<close>
  "default_equals_empty p =
     (case param_default p of None \<Rightarrow> CompareTrue | Some d \<Rightarrow> equals_empty d)"

fun parameters_loop ::
    "(string \<Rightarrow> string) \<Rightarrow> string option \<Rightarrow> param list
       \<Rightarrow> (string \<times> json) list \<Rightarrow> string list
       \<Rightarrow> py_exception + ((string \<times> json) list \<times> string list)" where
  \<comment> \<open>the loop over the parameters; the accumulators are \<open>parameters["properties"]\<close> and
      \<open>parameters["required"]\<close>\<close>
  "parameters_loop cleandoc doc [] properties required = Inr (properties, required)"
| "parameters_loop cleandoc doc (p # ps) properties required =
     (if param_name p = ''self'' then parameters_loop cleandoc doc ps properties required
      else
        case param_schema cleandoc doc p of
          Inl e \<Rightarrow> Inl e
        | Inr schema \<Rightarrow>
            (case default_equals_empty p of
               CompareRaises e \<Rightarrow> Inl e
             | CompareTrue \<Rightarrow>
                 parameters_loop cleandoc doc ps
                   (dict_set properties (param_name p) schema) (required @ [param_name p])
             | CompareFalse \<Rightarrow>
                 parameters_loop cleandoc doc ps
                   (dict_set properties (param_name p) schema) required))"

definition parameters_from_type_hints ::
    "(string \<Rightarrow> string) \<Rightarrow> py_function \<Rightarrow> py_exception + json" where
  "parameters_from_type_hints cleandoc f =
     (case parameters_loop cleandoc (func_doc f) (func_params f) [] [] of
        Inl e \<Rightarrow> Inl e
      | Inr (properties, required) \<Rightarrow>
          Inr (JObj [(''type'', JStr ''object''),
                     (''properties'', JObj properties),
                     (''required'', JArr (map JStr required))]))"

definition from_function ::
    "(string \<Rightarrow> string) \<Rightarrow> py_function \<Rightarrow> string option \<Rightarrow> string option \<Rightarrow> json option
       \<Rightarrow> py_exception + Tool" where
  \<comment> \<open>\<open>Tool.from_function(func, name, description, parameters)\<close>\<close>
  "from_function cleandoc f n d ps =
     (let n' = (case n of None \<Rightarrow> func_name f | Some x \<Rightarrow> x);
          d' = (case d of None \<Rightarrow> (case func_doc f of None \<Rightarrow> [] | Some x \<Rightarrow> x)
                | Some x \<Rightarrow> x)
      in case (case ps of None \<Rightarrow> parameters_from_type_hints cleandoc f | Some x \<Rightarrow> Inr x) of
           Inl e \<Rightarrow> Inl e
         | Inr ps' \<Rightarrow> make_Tool n' d' ps' f)"

subsection \<open>\<open>ToolRegistry\<close>\<close>

type_synonym ToolRegistry = "(string \<times> Tool) list"   \<comment> \<open>the dict \<open>tools\<close>\<close>

datatype registrable =
    AsTool Tool
  | AsCallable py_function "string option" "string option" "json option"
      \<comment> \<open>a callable with the keyword arguments \<open>name\<close>, \<open>description\<close>, \<open>parameters\<close>\<close>

definition register ::
    "(string \<Rightarrow> string) \<Rightarrow> ToolRegistry \<Rightarrow> registrable \<Rightarrow> py_exception + ToolRegistry" where
  "register cleandoc tools r =
     (case (case r of
              AsTool tool \<Rightarrow> Inr tool
            | AsCallable f n d ps \<Rightarrow> from_function cleandoc f n d ps) of
        Inl e \<Rightarrow> Inl e
      | Inr tool \<Rightarrow> Inr (dict_set tools (name tool) tool))"

definition get_tool :: "ToolRegistry \<Rightarrow> string \<Rightarrow> Tool option" where
  "get_tool tools n = dict_get tools n"

definition list_tools :: "ToolRegistry \<Rightarrow> json list" where
  "list_tools tools = map (\<lambda>(n, tool). to_dict tool) tools"

subsection \<open>Notions used to state the properties of the descriptor builder\<close>

definition basic_annotation :: "py_type \<Rightarrow> bool" where
  \<comment> \<open>one of the classes \<open>str\<close>, \<open>int\<close>, \<open>float\<close>, \<open>bool\<close>\<close>
  "basic_annotation t =
     (t = class_type ''str'' \<or> t = class_type ''int'' \<or> t = class_type ''float''
      \<or> t = class_type ''bool'')"

definition unrecognized_annotation :: "py_type \<Rightarrow> bool" where
  \<comment> \<open>after the \<open>Optional\<close> step the annotation is not named in the mapping table and is
      not a \<open>list\<close> or \<open>dict\<close> alias with arguments: a class of another name, \<open>typing.Any\<close>, a
      missing annotation, \<open>Tuple[int, str]\<close>, a union of several types\<close>
  "unrecognized_annotation t =
     (case unwrap_optional t of
        Inl e \<Rightarrow> False
      | Inr u \<Rightarrow>
          dict_get type_mapping (type_name u) = None
          \<and> (type_args u = None
               \<or> (type_origin u \<noteq> Some ListOrigin \<and> type_origin u \<noteq> Some DictOrigin)))"

definition ordinary_default :: "param \<Rightarrow> bool" where
  \<comment> \<open>the parameter has no default, or a default that compares unequal to
      \<open>Parameter.empty\<close>\<close>
  "ordinary_default p =
     (case param_default p of None \<Rightarrow> True | Some d \<Rightarrow> equals_empty d = CompareFalse)"

definition expected_json_type :: "py_type \<Rightarrow> string" where
  \<comment> \<open>the mapping table of the specification, with \<open>string\<close> for every other annotation\<close>
  "expected_json_type t =
     (if t = class_type ''str'' then ''string''
      else if t = class_type ''int'' then ''integer''
      else if t = class_type ''float'' then ''number''
      else if t = class_type ''bool'' then ''boolean''
      else ''string'')"

definition builder_names :: "param list \<Rightarrow> string list" where
  \<comment> \<open>the names the builder describes: all but \<open>self\<close>\<close>
  "builder_names ps = filter (\<lambda>n. n \<noteq> ''self'') (map param_name ps)"

definition names_without_default :: "param list \<Rightarrow> string list" where
  "names_without_default ps =
     map param_name (filter (\<lambda>p. param_name p \<noteq> ''self'' \<and> param_default p = None) ps)"

section \<open>Agent loop\<close>

text \<open>
  \<open>agent.py\<close> imports \<open>Tool\<close> and \<open>ToolRegistry\<close> from a module \<open>utils.tools\<close> of its own
  package; the classes of these names in the repository are those of
  \<open>aideck/core/tools.py\<close>, embedded above, and the agent is read with them.
\<close>

subsection \<open>Messages, requests and the completion client\<close>

record tool_call =
  call_id :: string          \<comment> \<open>\<open>tool_call.id\<close>\<close>
  call_name :: string        \<comment> \<open>\<open>tool_call.function.name\<close>\<close>
  call_arguments :: string   \<comment> \<open>\<open>tool_call.function.arguments\<close>, a JSON text\<close>

record response_message =
  content :: "string option"
  tool_calls :: "tool_call list option"   \<comment> \<open>\<open>None\<close> when the attribute is missing or \<open>None\<close>\<close>

datatype message =
    UserMessage string                \<comment> \<open>\<open>{"role": "user", "content": message}\<close>\<close>
  | ResponseMessage response_message  \<comment> \<open>the message object of a response\<close>
  | AgentToolCalls "tool_call list"   \<comment> \<open>\<open>{"role": "agent", "content": None, "tool_calls": ...}\<close>\<close>
  | ToolResult string string string
      \<comment> \<open>\<open>{"tool_call_id": id, "role": "tool", "name": name, "content": content}\<close>\<close>

record request =
  request_messages :: "message list"
  request_tools :: "json list option"   \<comment> \<open>the second request passes no tools\<close>

text \<open>
  What the turn does to the outside world is recorded in a trace: the completion requests it
  issues and the tool handlers it runs, in order. The completion client is any function
  from the requests issued so far, the current one last, to a response (its list of
  choices) or an exception; \<open>json.loads\<close> and \<open>json.dumps\<close> are parameters
  (\<open>None\<close> stands for the \<open>JSONDecodeError\<close> of \<open>json.loads\<close>).
\<close>

datatype event =
    Request request
  | ToolRun string "(string \<times> json) list"   \<comment> \<open>the body of \<open>Tool.run\<close> is entered\<close>

type_synonym client = "request list \<Rightarrow> py_exception + response_message list"

record agent =
  messages :: "message list"
  tool_registry :: ToolRegistry
  trace :: "event list"

fun requests_of :: "event list \<Rightarrow> request list" where
  "requests_of [] = []"
| "requests_of (Request r # es) = r # requests_of es"
| "requests_of (ToolRun n kwargs # es) = requests_of es"

definition create_completion ::
    "client \<Rightarrow> agent \<Rightarrow> json list option \<Rightarrow> (py_exception + response_message) \<times> agent" where
  \<comment> \<open>\<open>self.client.chat.completions.create(messages=self.messages, ...)\<close> followed by
      \<open>.choices[0].message\<close>\<close>
  "create_completion cl a tools =
     (let req = \<lparr>request_messages = messages a, request_tools = tools\<rparr>;
          a' = a\<lparr>trace := trace a @ [Request req]\<rparr>
      in case cl (requests_of (trace a')) of
           Inl e \<Rightarrow> (Inl e, a')
         | Inr [] \<Rightarrow> (Inl (IndexError ''list index out of range''), a')
         | Inr (m # _) \<Rightarrow> (Inr m, a'))"

subsection \<open>\<open>GPTChatAgent.run\<close>\<close>

definition dispatch_tool_call ::
    "(string \<Rightarrow> json option) \<Rightarrow> (json \<Rightarrow> string) \<Rightarrow> tool_call \<Rightarrow> agent
       \<Rightarrow> py_exception option \<times> agent" where
  \<comment> \<open>the body of the loop over the tool calls\<close>
  "dispatch_tool_call json_loads json_dumps tc a =
     (let function_name = call_name tc
      in case json_loads (call_arguments tc) of
           None \<Rightarrow> (Some (JSONDecodeError (call_arguments tc)), a)
         | Some function_args \<Rightarrow>
            (case get_tool (tool_registry a) function_name of
               None \<Rightarrow> (None, a)
             | Some tool \<Rightarrow>
                (case function_args of
                   JObj kwargs \<Rightarrow>
                     (let a' = (if binds_self kwargs then a
                                else a\<lparr>trace := trace a @ [ToolRun function_name kwargs]\<rparr>)
                      in case Tool_run tool kwargs of
                           Inl e \<Rightarrow> (Some e, a')
                         | Inr (Returns function_response) \<Rightarrow>
                             (None,
                              a'\<lparr>messages := messages a'
                                    @ [ToolResult (call_id tc) function_name
                                         (json_dumps function_response)]\<rparr>)
                         | Inr _ \<Rightarrow>
                             (Some (TypeError ''Object is not JSON serializable''), a'))
                 | _ \<Rightarrow> (Some (TypeError ''argument after ** must be a mapping''), a))))"

fun dispatch_tool_calls ::
    "(string \<Rightarrow> json option) \<Rightarrow> (json \<Rightarrow> string) \<Rightarrow> tool_call list \<Rightarrow> agent
       \<Rightarrow> py_exception option \<times> agent" where
  "dispatch_tool_calls json_loads json_dumps [] a = (None, a)"
| "dispatch_tool_calls json_loads json_dumps (tc # rest) a =
     (case dispatch_tool_call json_loads json_dumps tc a of
        (Some e, a') \<Rightarrow> (Some e, a')
      | (None, a') \<Rightarrow> dispatch_tool_calls json_loads json_dumps rest a')"

definition GPTChatAgent_run ::
    "client \<Rightarrow> (string \<Rightarrow> json option) \<Rightarrow> (json \<Rightarrow> string) \<Rightarrow> agent \<Rightarrow> string
       \<Rightarrow> (py_exception + string option) \<times> agent" where
  \<comment> \<open>one turn: the value returned or the exception raised, and the agent afterwards\<close>
  "GPTChatAgent_run cl json_loads json_dumps a0 user_message =
     (let a1 = a0\<lparr>messages := messages a0 @ [UserMessage user_message]\<rparr>
      in case create_completion cl a1 (Some (map to_dict (map snd (tool_registry a1)))) of
           (Inl e, a2) \<Rightarrow> (Inl e, a2)
         | (Inr response_message, a2) \<Rightarrow>
            (let a3 = a2\<lparr>messages := messages a2 @ [ResponseMessage response_message]\<rparr>
             in case tool_calls response_message of
                  None \<Rightarrow> (Inr (content response_message), a3)
                | Some [] \<Rightarrow> (Inr (content response_message), a3)
                | Some calls \<Rightarrow>
                   (let a4 = a3\<lparr>messages := messages a3 @ [AgentToolCalls calls]\<rparr>
                    in case dispatch_tool_calls json_loads json_dumps calls a4 of
                         (Some e, a5) \<Rightarrow> (Inl e, a5)
                       | (None, a5) \<Rightarrow>
                          (case create_completion cl a5 None of
                             (Inl e, a6) \<Rightarrow> (Inl e, a6)
                           | (Inr second_message, a6) \<Rightarrow>
                               (Inr (content second_message),
                                a6\<lparr>messages := messages a6
                                      @ [ResponseMessage second_message]\<rparr>)))))"

subsection \<open>Notions used to state the properties of the agent loop\<close>

fun is_request :: "event \<Rightarrow> bool" where
  "is_request (Request r) = True"
| "is_request (ToolRun n kwargs) = False"







section \<open>Properties of the double-precision model\<close>




lemma binary_exponent_less:
  assumes "0 < x"
  shows "x < 2 powi (binary_exponent x + 1)"
proof -
  obtain p q where pq: "quotient_of x = (p, q)" by (cases "quotient_of x")
  have q: "0 < q" using quotient_of_denom_pos[OF pq] .
  have x: "x = of_int p / of_int q" using quotient_of_div[OF pq] .
  have p: "0 < p" using assms q unfolding x by (simp add: zero_less_divide_iff)
  define d where "d = bitlen p - bitlen q"
  show ?thesis
  proof (cases "2 powi d \<le> x")
    case False
    then show ?thesis by (simp add: binary_exponent_def pq d_def Let_def)
  next
    case True
    have bp: "1 \<le> bitlen p" "1 \<le> bitlen q" using p q by (auto simp: bitlen_alt_def)
    have hi: "of_int p < (2::rat) ^ nat (bitlen p)"
      using bitlen_bounds[OF p] by (metis of_int_less_iff of_int_numeral of_int_power)
    have lo: "(2::rat) ^ nat (bitlen q - 1) \<le> of_int q"
      using bitlen_bounds[OF q] by (metis of_int_le_iff of_int_numeral of_int_power)
    have "of_int p / of_int q < (2::rat) ^ nat (bitlen p) / 2 ^ nat (bitlen q - 1)"
    proof (rule frac_less)
      show "(0::rat) \<le> of_int p" using p by simp
      show "of_int p < (2::rat) ^ nat (bitlen p)" by (rule hi)
      show "(0::rat) < 2 ^ nat (bitlen q - 1)" by simp
      show "(2::rat) ^ nat (bitlen q - 1) \<le> of_int q" by (rule lo)
    qed
    also have "\<dots> = 2 powi (bitlen p) / 2 powi (bitlen q - 1)"
      using bp by (simp add: power_int_def)
    also have "\<dots> = 2 powi (bitlen p - (bitlen q - 1))"
      by (rule power_int_diff[symmetric]) simp
    also have "bitlen p - (bitlen q - 1) = d + 1"
      by (simp add: d_def)
    finally have "x < 2 powi (d + 1)" unfolding x .
    with True show ?thesis by (simp add: binary_exponent_def pq d_def Let_def)
  qed
qed







section \<open>Properties of the classifier\<close>

lemma keyword_score_count:
  "keyword_score kws t score = score + count_keywords kws t"
  by (induction kws arbitrary: score) (simp_all add: count_keywords_def)

lemma category_keywords_tables:
  "category_keywords =
     [(WORK, WORK_KEYWORDS), (COMMUNICATION, COMMUNICATION_KEYWORDS), (BREAKS, BREAKS_KEYWORDS)]"
  by (simp add: category_keywords_def WORK_KEYWORDS_def COMMUNICATION_KEYWORDS_def
      BREAKS_KEYWORDS_def)

lemma keyword_table_sizes:
  "length WORK_KEYWORDS = 26"
  "length COMMUNICATION_KEYWORDS = 22"
  "length BREAKS_KEYWORDS = 18"
  by (simp_all add: WORK_KEYWORDS_def COMMUNICATION_KEYWORDS_def BREAKS_KEYWORDS_def)

lemma eval_keyword_tables:
  "dict_get module_globals (str_upper_ascii ''work'' @ ''_KEYWORDS'') = Some WORK_KEYWORDS"
  "dict_get module_globals (str_upper_ascii ''communication'' @ ''_KEYWORDS'')
     = Some COMMUNICATION_KEYWORDS"
  "dict_get module_globals (str_upper_ascii ''breaks'' @ ''_KEYWORDS'') = Some BREAKS_KEYWORDS"
  by code_simp+

lemma confidence_threshold_value:
  "confidence_threshold = 5404319552844595 / 18014398509481984"
  unfolding confidence_threshold_def by code_simp

lemma to_double_zero: "to_double 0 = 0"
  by (simp add: to_double_def)

lemma coding_and_debugging_text:
  "text_to_analyze ''coding and debugging'' '''' '''' = ''coding and debugging  ''"
  by code_simp

lemma coding_and_debugging_scores:
  "count_keywords WORK_KEYWORDS ''coding and debugging  '' = 2"
  "count_keywords COMMUNICATION_KEYWORDS ''coding and debugging  '' = 0"
  "count_keywords BREAKS_KEYWORDS ''coding and debugging  '' = 0"
  by code_simp+

lemma two_of_26: "int_truediv 2 26 = 1385722962267845 / 18014398509481984"
  by code_simp

lemma two_of_25: "int_truediv 2 25 = 5764607523034235 / 72057594037927936"
  by code_simp

text \<open>
  C5 (as stated). The claim puts the confidence of "coding and debugging" at 2/25 = 0.08.
  The work keyword list of the tracker has 26 entries, so the tracker returns the double
  nearest to 2/26, which is neither 2/25 nor the double nearest to it.
\<close>

theorem coding_and_debugging_confidence_counterexample:
  "tracker_categorize_activity
     \<lparr>timestamp = (), app_name = '''', window_title = '''', content_summary = '''',
      user_activity = ''coding and debugging'', category = UNCATEGORIZED, confidence = 0\<rparr>
   \<noteq> Inr (UNCATEGORIZED, int_truediv 2 25)
   \<and> tracker_categorize_activity
     \<lparr>timestamp = (), app_name = '''', window_title = '''', content_summary = '''',
      user_activity = ''coding and debugging'', category = UNCATEGORIZED, confidence = 0\<rparr>
   \<noteq> Inr (UNCATEGORIZED, 2 / 25)"
  unfolding tracker_categorize_activity_def category_keywords_tables
  by (simp add: Let_def keyword_score_count dict_index_def keyword_table_sizes
      coding_and_debugging_text coding_and_debugging_scores two_of_26 two_of_25
      confidence_threshold_value)

text \<open>
  C5 (amended). An entry whose activity text is "coding and debugging", with empty content
  summary and window title, matches exactly 2 of the 26 work keywords and no keyword of the
  other two categories; its confidence is the double nearest to 2/26 (printed by Python as
  0.07692307692307693), which is below the threshold 0.3, so the tracker returns the
  category uncategorized together with that unmodified confidence.
\<close>

theorem coding_and_debugging_uncategorized:
  "keyword_score (the (dict_get category_keywords WORK)) 
       (text_to_analyze ''coding and debugging'' '''' '''') 0 = 2
   \<and> length (the (dict_get category_keywords WORK)) = 26
   \<and> int_truediv 2 26 < confidence_threshold
   \<and> int_truediv 2 26 = 1385722962267845 / 18014398509481984
   \<and> tracker_categorize_activity
       \<lparr>timestamp = ts, app_name = an, window_title = '''', content_summary = '''',
        user_activity = ''coding and debugging'', category = cat0, confidence = conf0\<rparr>
     = Inr (UNCATEGORIZED, int_truediv 2 26)"
  unfolding tracker_categorize_activity_def category_keywords_tables
  by (simp add: Let_def keyword_score_count dict_index_def keyword_table_sizes
      coding_and_debugging_text coding_and_debugging_scores two_of_26
      confidence_threshold_value)

text \<open>
  C10. The standalone classifier of \<open>improved_activity_tracker.py\<close> and the tracker's
  classifier agree on every triple of texts: neither raises, the standalone classifier
  returns the string value of the tracker's category, and both return the same confidence.
\<close>

theorem classifiers_agree:
  "\<exists>c conf. tracker_categorize_activity e = Inr (c, conf) \<and>
     categorize_activity (user_activity e) (content_summary e) (window_title e)
       = Inr (category_value c, conf)"
proof -
  define t where "t = text_to_analyze (user_activity e) (content_summary e) (window_title e)"
  define a where "a = count_keywords WORK_KEYWORDS t"
  define b where "b = count_keywords COMMUNICATION_KEYWORDS t"
  define c where "c = count_keywords BREAKS_KEYWORDS t"
  have zero_conf: "int_truediv 0 n = 0" for n
    by (simp add: int_truediv_def to_double_zero)
  have thr: "(0::rat) < confidence_threshold"
    by (simp add: confidence_threshold_value)
  show ?thesis
    unfolding tracker_categorize_activity_def categorize_activity_def
      category_keywords_tables
    by (simp add: Let_def keyword_score_count dict_index_def eval_keyword_tables
        keyword_table_sizes zero_conf thr
        flip: t_def a_def b_def c_def)
qed

section \<open>Properties of the aggregator\<close>

text \<open>
  C3 (the code at the failing inputs). With seven entries, all of category work, the
  tracked total is one minute, so the percentage is taken of 60 seconds and not of the 70
  seconds tracked: the summary reports 116 percent for work, where the claimed formula
  \<open>floor(100 * 70 / 70)\<close> gives 100. With a single entry the tracked total is zero
  minutes and every percentage is 0, where the claimed formula gives 100 for work.
\<close>

theorem time_distribution_percentage_of_truncated_minutes:
  "map_sum id (\<lambda>s. (total_tracked_minutes s, time_distribution s))
     (get_summary ''2024-01-15''
        (map (\<lambda>i. \<lparr>timestamp = i, app_name = ''Code'', window_title = ''main.py'',
                     content_summary = '''', user_activity = ''coding'',
                     category = WORK, confidence = 0\<rparr>) [0..<7])
        None None)
   = Inr (1, [(''work'', \<lparr>minutes = 1, percentage = 116\<rparr>),
              (''communication'', \<lparr>minutes = 0, percentage = 0\<rparr>),
              (''breaks'', \<lparr>minutes = 0, percentage = 0\<rparr>),
              (''uncategorized'', \<lparr>minutes = 0, percentage = 0\<rparr>)])
   \<and> (100 * (10 * 7)) div (10 * 7) = (100 :: int)
   \<and> map_sum id (\<lambda>s. (total_tracked_minutes s, time_distribution s))
     (get_summary ''2024-01-15''
        [\<lparr>timestamp = 0::nat, app_name = ''Code'', window_title = ''main.py'',
          content_summary = '''', user_activity = ''coding'',
          category = WORK, confidence = 0\<rparr>]
        None None)
   = Inr (0, [(''work'', \<lparr>minutes = 0, percentage = 0\<rparr>),
              (''communication'', \<lparr>minutes = 0, percentage = 0\<rparr>),
              (''breaks'', \<lparr>minutes = 0, percentage = 0\<rparr>),
              (''uncategorized'', \<lparr>minutes = 0, percentage = 0\<rparr>)])
   \<and> (100 * (10 * 1)) div (10 * 1) = (100 :: int)"
  by code_simp




section \<open>Properties of the persistence functions\<close>

lemma ActivityCategory_of_value_inverse:
  "ActivityCategory_of_value (JStr (category_value c)) = Inr c"
  by (cases c) (simp_all add: ActivityCategory_of_value_def)

lemma entry_of_json_inverse:
  assumes "fromisoformat (isoformat (timestamp e)) = Some (timestamp e)"
  shows "entry_of_json fromisoformat (entry_to_json isoformat e) = Inr e"
  using assms
  by (simp add: entry_of_json_def entry_to_json_def timestamp_field_def text_field_def
      category_field_def confidence_field_def ActivityCategory_of_value_inverse)

lemma load_loop_saved:
  assumes "\<forall>e \<in> set entries. fromisoformat (isoformat (timestamp e)) = Some (timestamp e)"
  shows "load_loop fromisoformat (map (entry_to_json isoformat) entries) loaded
           = (None, loaded @ entries)"
  using assms
  by (induction entries arbitrary: loaded) (simp_all add: entry_of_json_inverse)

lemma load_loop_prefix:
  "load_loop fromisoformat entries loaded = (outcome, final)
     \<Longrightarrow> \<exists>parsed. final = loaded @ parsed \<and> length parsed \<le> length entries
           \<and> (outcome = None \<longrightarrow> length parsed = length entries)
           \<and> (outcome \<noteq> None \<longrightarrow> length parsed < length entries)"
proof (induction entries arbitrary: loaded)
  case Nil
  then show ?case by simp
next
  case (Cons entry_data rest)
  show ?case
  proof (cases "entry_of_json fromisoformat entry_data")
    case (Inl e)
    with Cons.prems show ?thesis by auto
  next
    case (Inr entry)
    with Cons.prems have "load_loop fromisoformat rest (loaded @ [entry]) = (outcome, final)"
      by simp
    from Cons.IH[OF this] obtain parsed where
      "final = (loaded @ [entry]) @ parsed" "length parsed \<le> length rest"
      "outcome = None \<longrightarrow> length parsed = length rest"
      "outcome \<noteq> None \<longrightarrow> length parsed < length rest"
      by blast
    then show ?thesis
      by (intro exI[of _ "entry # parsed"]) auto
  qed
qed

text \<open>
  C9. Saving an activity log and loading the file again gives the same log: the same
  entries, with the same seven fields, in the same order, and no exception. The log that
  the tracker held before the load does not matter. The library contract used is that
  \<open>fromisoformat\<close> reads back what \<open>isoformat\<close> printed for each timestamp of the log (and,
  in the model of files, that \<open>json.load\<close> reads back what \<open>json.dump\<close> wrote).
\<close>

theorem save_then_load_roundtrip:
  assumes "\<forall>e \<in> set activity_log.
             fromisoformat (isoformat (timestamp e)) = Some (timestamp e)"
  shows "load_from_file fromisoformat
           (save_to_file isoformat fs filename activity_log) filename previous_log
         = (None, activity_log)"
  using load_loop_saved[OF assms, of "[]"]
  by (simp add: load_from_file_def save_to_file_def json_load_file_def json_dump_file_def
      dict_get_default_def)

theorem save_then_load_roundtrip_witness:
  "naive_fromisoformat
     (naive_isoformat \<lparr>dt_year = 2024, dt_month = 1, dt_day = 15, dt_hour = 9,
                       dt_minute = 0, dt_second = 0\<rparr>)
     = Some \<lparr>dt_year = 2024, dt_month = 1, dt_day = 15, dt_hour = 9,
              dt_minute = 0, dt_second = 0\<rparr>
   \<and> naive_fromisoformat
     (naive_isoformat \<lparr>dt_year = 2024, dt_month = 2, dt_day = 29, dt_hour = 23,
                       dt_minute = 59, dt_second = 50\<rparr>)
     = Some \<lparr>dt_year = 2024, dt_month = 2, dt_day = 29, dt_hour = 23,
              dt_minute = 59, dt_second = 50\<rparr>
   \<and> load_from_file naive_fromisoformat
       (save_to_file naive_isoformat (\<lambda>_. NoFile) ''activity_log.json''
          [\<lparr>timestamp = \<lparr>dt_year = 2024, dt_month = 1, dt_day = 15, dt_hour = 9,
                         dt_minute = 0, dt_second = 0\<rparr>,
            app_name = ''Visual Studio Code'', window_title = ''main.py'',
            content_summary = ''Writing Python code'',
            user_activity = ''coding and debugging application'',
            category = UNCATEGORIZED, confidence = int_truediv 3 26\<rparr>,
           \<lparr>timestamp = \<lparr>dt_year = 2024, dt_month = 2, dt_day = 29, dt_hour = 23,
                         dt_minute = 59, dt_second = 50\<rparr>,
            app_name = ''Microsoft Teams'', window_title = ''Team Standup Meeting'',
            content_summary = ''Video call with team members'',
            user_activity = ''participating in daily standup meeting'',
            category = COMMUNICATION, confidence = int_truediv 7 22\<rparr>])
       ''activity_log.json'' []
     = (None,
        [\<lparr>timestamp = \<lparr>dt_year = 2024, dt_month = 1, dt_day = 15, dt_hour = 9,
                         dt_minute = 0, dt_second = 0\<rparr>,
            app_name = ''Visual Studio Code'', window_title = ''main.py'',
            content_summary = ''Writing Python code'',
            user_activity = ''coding and debugging application'',
            category = UNCATEGORIZED, confidence = int_truediv 3 26\<rparr>,
           \<lparr>timestamp = \<lparr>dt_year = 2024, dt_month = 2, dt_day = 29, dt_hour = 23,
                         dt_minute = 59, dt_second = 50\<rparr>,
            app_name = ''Microsoft Teams'', window_title = ''Team Standup Meeting'',
            content_summary = ''Video call with team members'',
            user_activity = ''participating in daily standup meeting'',
            category = COMMUNICATION, confidence = int_truediv 7 22\<rparr>])"
proof -
  have a: "naive_fromisoformat
             (naive_isoformat \<lparr>dt_year = 2024, dt_month = 1, dt_day = 15, dt_hour = 9,
                               dt_minute = 0, dt_second = 0\<rparr>)
           = Some \<lparr>dt_year = 2024, dt_month = 1, dt_day = 15, dt_hour = 9,
                    dt_minute = 0, dt_second = 0\<rparr>"
    by code_simp
  have b: "naive_fromisoformat
             (naive_isoformat \<lparr>dt_year = 2024, dt_month = 2, dt_day = 29, dt_hour = 23,
                               dt_minute = 59, dt_second = 50\<rparr>)
           = Some \<lparr>dt_year = 2024, dt_month = 2, dt_day = 29, dt_hour = 23,
                    dt_minute = 59, dt_second = 50\<rparr>"
    by code_simp
  show ?thesis
    using a b
      save_then_load_roundtrip
        [of "[\<lparr>timestamp = \<lparr>dt_year = 2024, dt_month = 1, dt_day = 15, dt_hour = 9,
                         dt_minute = 0, dt_second = 0\<rparr>,
            app_name = ''Visual Studio Code'', window_title = ''main.py'',
            content_summary = ''Writing Python code'',
            user_activity = ''coding and debugging application'',
            category = UNCATEGORIZED, confidence = int_truediv 3 26\<rparr>,
           \<lparr>timestamp = \<lparr>dt_year = 2024, dt_month = 2, dt_day = 29, dt_hour = 23,
                         dt_minute = 59, dt_second = 50\<rparr>,
            app_name = ''Microsoft Teams'', window_title = ''Team Standup Meeting'',
            content_summary = ''Video call with team members'',
            user_activity = ''participating in daily standup meeting'',
            category = COMMUNICATION, confidence = int_truediv 7 22\<rparr>]"
           naive_fromisoformat naive_isoformat "\<lambda>_. NoFile" "''activity_log.json''" "[]"]
    by simp
qed

text \<open>
  C6 (the code at the failing input). The file holds two entries: the first is well
  formed, the second has the category "play", which is not a value of the enum. The load
  raises \<open>ValueError\<close>, and the tracker is left with a log of exactly the first entry of the
  file: the log it held before is gone, and a part of the file has been loaded.
\<close>

theorem load_from_file_leaves_partial_log:
  assumes "fromisoformat ''2024-01-15T09:00:00'' = Some t"
  shows "load_from_file fromisoformat
           (\<lambda>name. if name = ''activity_log.json'' then
              JSONDoc (JObj [(''activities'', JArr
                [JObj [(''timestamp'', JStr ''2024-01-15T09:00:00''),
                       (''app_name'', JStr ''Visual Studio Code''),
                       (''window_title'', JStr ''main.py''),
                       (''content_summary'', JStr ''Writing Python code''),
                       (''user_activity'', JStr ''coding''),
                       (''category'', JStr ''work''),
                       (''confidence'', JFloat (1 / 2))],
                 JObj [(''timestamp'', JStr ''2024-01-15T09:00:00''),
                       (''app_name'', JStr ''Chrome''),
                       (''window_title'', JStr ''Tutorial''),
                       (''content_summary'', JStr ''Watching a tutorial''),
                       (''user_activity'', JStr ''learning''),
                       (''category'', JStr ''play''),
                       (''confidence'', JFloat (1 / 2))]])])
            else NoFile)
           ''activity_log.json'' previous_log
         = (Some (Raised (ValueError ''not a valid ActivityCategory'')),
            [\<lparr>timestamp = t, app_name = ''Visual Studio Code'', window_title = ''main.py'',
              content_summary = ''Writing Python code'', user_activity = ''coding'',
              category = WORK, confidence = 1 / 2\<rparr>])"
  using assms
  by (simp add: load_from_file_def json_load_file_def dict_get_default_def entry_of_json_def
      timestamp_field_def text_field_def category_field_def confidence_field_def
      ActivityCategory_of_value_def)

theorem load_from_file_leaves_partial_log_witness:
  "naive_fromisoformat ''2024-01-15T09:00:00''
     = Some \<lparr>dt_year = 2024, dt_month = 1, dt_day = 15, dt_hour = 9, dt_minute = 0,
              dt_second = 0\<rparr>
   \<and> load_from_file naive_fromisoformat
           (\<lambda>name. if name = ''activity_log.json'' then
              JSONDoc (JObj [(''activities'', JArr
                [JObj [(''timestamp'', JStr ''2024-01-15T09:00:00''),
                       (''app_name'', JStr ''Visual Studio Code''),
                       (''window_title'', JStr ''main.py''),
                       (''content_summary'', JStr ''Writing Python code''),
                       (''user_activity'', JStr ''coding''),
                       (''category'', JStr ''work''),
                       (''confidence'', JFloat (1 / 2))],
                 JObj [(''timestamp'', JStr ''2024-01-15T09:00:00''),
                       (''app_name'', JStr ''Chrome''),
                       (''window_title'', JStr ''Tutorial''),
                       (''content_summary'', JStr ''Watching a tutorial''),
                       (''user_activity'', JStr ''learning''),
                       (''category'', JStr ''play''),
                       (''confidence'', JFloat (1 / 2))]])])
            else NoFile)
           ''activity_log.json'' []
         = (Some (Raised (ValueError ''not a valid ActivityCategory'')),
            [\<lparr>timestamp = \<lparr>dt_year = 2024, dt_month = 1, dt_day = 15, dt_hour = 9,
                            dt_minute = 0, dt_second = 0\<rparr>,
              app_name = ''Visual Studio Code'', window_title = ''main.py'',
              content_summary = ''Writing Python code'', user_activity = ''coding'',
              category = WORK, confidence = 1 / 2\<rparr>])"
proof -
  have parsed: "naive_fromisoformat ''2024-01-15T09:00:00''
     = Some \<lparr>dt_year = 2024, dt_month = 1, dt_day = 15, dt_hour = 9, dt_minute = 0,
              dt_second = 0\<rparr>"
    by code_simp
  show ?thesis
    using parsed
      load_from_file_leaves_partial_log
        [of naive_fromisoformat
            "\<lparr>dt_year = 2024, dt_month = 1, dt_day = 15, dt_hour = 9, dt_minute = 0,
              dt_second = 0\<rparr>" "[]"]
    by simp
qed

section \<open>Properties of the tools\<close>

lemma dict_get_dict_set:
  "dict_get (dict_set d k v) k' = (if k' = k then Some v else dict_get d k')"
  by (induction d) auto

lemma dict_set_keys:
  "map fst (dict_set d k v) = (if k \<in> set (map fst d) then map fst d else map fst d @ [k])"
  by (induction d) (auto simp: rev_image_eqI)

lemma after_first_colon_None: "after_first_colon l = None \<longleftrightarrow> CHR '':'' \<notin> set l"
  by (induction l) auto

lemma starts_with_set: "starts_with s k \<Longrightarrow> set k \<subseteq> set s"
  by (induction s k rule: starts_with.induct) auto

lemma str_strip_subset: "set (str_strip l) \<subseteq> set l"
proof
  fix c assume "c \<in> set (str_strip l)"
  then have "c \<in> set (dropWhile is_space (rev (dropWhile is_space l)))"
    by (simp add: str_strip_def)
  then have "c \<in> set (rev (dropWhile is_space l))" by (rule set_dropWhileD)
  then have "c \<in> set (dropWhile is_space l)" by simp
  then show "c \<in> set l" by (rule set_dropWhileD)
qed

lemma describe_loop_type:
  assumes "dict_get items ''type'' = Some ty"
  shows "\<exists>items'. describe_loop pname lines (JObj items) = Inr (JObj items')
           \<and> dict_get items' ''type'' = Some ty"
  using assms
proof (induction lines arbitrary: items)
  case Nil
  then show ?case by simp
next
  case (Cons line rest)
  show ?case
  proof (cases "starts_with (str_strip line) (pname @ '':'')")
    case True
    then have "CHR '':'' \<in> set (str_strip line)" using starts_with_set by fastforce
    then have "CHR '':'' \<in> set line" using str_strip_subset by blast
    then obtain d where d: "after_first_colon line = Some d"
      using after_first_colon_None by (cases "after_first_colon line") auto
    have "dict_get (dict_set items ''description'' (JStr (str_strip d))) ''type'' = Some ty"
      using Cons.prems by (simp add: dict_get_dict_set)
    from Cons.IH[OF this] show ?thesis using True d by simp
  next
    case False
    with Cons show ?thesis by simp
  qed
qed

lemma basic_schema_of_basic:
  "unwrap_optional (class_type ''str'') = Inr (class_type ''str'')"
  "unwrap_optional (class_type ''int'') = Inr (class_type ''int'')"
  "unwrap_optional (class_type ''float'') = Inr (class_type ''float'')"
  "unwrap_optional (class_type ''bool'') = Inr (class_type ''bool'')"
  "basic_schema (class_type ''str'') = Inr (JObj [(''type'', JStr ''string'')])"
  "basic_schema (class_type ''int'') = Inr (JObj [(''type'', JStr ''integer'')])"
  "basic_schema (class_type ''float'') = Inr (JObj [(''type'', JStr ''number'')])"
  "basic_schema (class_type ''bool'') = Inr (JObj [(''type'', JStr ''boolean'')])"
  by (simp_all add: unwrap_optional_def basic_schema_def class_type_def type_mapping_def)

lemma expected_json_type_basic:
  "expected_json_type (class_type ''str'') = ''string''"
  "expected_json_type (class_type ''int'') = ''integer''"
  "expected_json_type (class_type ''float'') = ''number''"
  "expected_json_type (class_type ''bool'') = ''boolean''"
  by (simp_all add: expected_json_type_def class_type_def)

lemma unrecognized_not_basic:
  assumes "unrecognized_annotation t"
  shows "expected_json_type t = ''string''"
proof -
  have "t \<noteq> class_type ''str''" "t \<noteq> class_type ''int''" "t \<noteq> class_type ''float''"
    "t \<noteq> class_type ''bool''"
    using assms
    by (auto simp: unrecognized_annotation_def unwrap_optional_def class_type_def
        type_mapping_def)
  then show ?thesis
    by (simp add: expected_json_type_def)
qed

lemma basic_schema_unrecognized:
  assumes "dict_get type_mapping (type_name u) = None"
    and "type_args u = None
         \<or> (type_origin u \<noteq> Some ListOrigin \<and> type_origin u \<noteq> Some DictOrigin)"
  shows "basic_schema u = Inr (JObj [(''type'', JStr ''string'')])"
  using assms by (auto simp: basic_schema_def split: option.splits)

lemma basic_schema_expected:
  assumes "basic_annotation t \<or> unrecognized_annotation t"
  shows "\<exists>u items. unwrap_optional t = Inr u \<and> basic_schema u = Inr (JObj items)
           \<and> dict_get items ''type'' = Some (JStr (expected_json_type t))"
proof (cases "basic_annotation t")
  case True
  then show ?thesis
    unfolding basic_annotation_def
    by (elim disjE) (simp_all add: basic_schema_of_basic expected_json_type_basic)
next
  case False
  with assms have un: "unrecognized_annotation t" by simp
  then obtain u where u: "unwrap_optional t = Inr u"
    and n: "dict_get type_mapping (type_name u) = None"
    and o: "type_args u = None
            \<or> (type_origin u \<noteq> Some ListOrigin \<and> type_origin u \<noteq> Some DictOrigin)"
    by (auto simp: unrecognized_annotation_def split: sum.splits)
  show ?thesis
    using u basic_schema_unrecognized[OF n o] unrecognized_not_basic[OF un] by simp
qed

lemma param_schema_expected:
  assumes "basic_annotation (param_annotation p) \<or> unrecognized_annotation (param_annotation p)"
  shows "\<exists>items. param_schema cleandoc doc p = Inr (JObj items)
           \<and> dict_get items ''type'' = Some (JStr (expected_json_type (param_annotation p)))"
proof -
  from basic_schema_expected[OF assms] obtain u items where
    u: "unwrap_optional (param_annotation p) = Inr u" and
    b: "basic_schema u = Inr (JObj items)" and
    t: "dict_get items ''type'' = Some (JStr (expected_json_type (param_annotation p)))"
    by blast
  show ?thesis
    using describe_loop_type[OF t] t
    by (auto simp: param_schema_def u b split: option.splits)
qed

lemma ordinary_default_equals_empty:
  assumes "ordinary_default p"
  shows "default_equals_empty p = (if param_default p = None then CompareTrue else CompareFalse)"
  using assms by (auto simp: ordinary_default_def default_equals_empty_def split: option.splits)

lemma parameters_loop_result:
  assumes "distinct (map param_name ps)"
    and "\<forall>p \<in> set ps. param_name p \<noteq> ''self'' \<longrightarrow>
           (basic_annotation (param_annotation p) \<or> unrecognized_annotation (param_annotation p))
           \<and> ordinary_default p"
    and "\<forall>p \<in> set ps. param_name p \<notin> set (map fst properties)"
  shows "\<exists>props. parameters_loop cleandoc doc ps properties required
             = Inr (props, required @ names_without_default ps)
           \<and> map fst props = map fst properties @ builder_names ps
           \<and> (\<forall>n. n \<notin> set (builder_names ps) \<longrightarrow> dict_get props n = dict_get properties n)
           \<and> (\<forall>p \<in> set ps. param_name p \<noteq> ''self'' \<longrightarrow>
                 (\<exists>items. dict_get props (param_name p) = Some (JObj items)
                    \<and> dict_get items ''type''
                        = Some (JStr (expected_json_type (param_annotation p)))))"
  using assms
proof (induction ps arbitrary: properties required)
  case Nil
  then show ?case by (simp add: names_without_default_def builder_names_def)
next
  case (Cons p ps)
  have d: "distinct (map param_name ps)" and fresh: "param_name p \<notin> set (map param_name ps)"
    using Cons.prems(1) by simp_all
  have ann: "\<forall>q \<in> set ps. param_name q \<noteq> ''self'' \<longrightarrow>
           (basic_annotation (param_annotation q) \<or> unrecognized_annotation (param_annotation q))
           \<and> ordinary_default q"
    using Cons.prems(2) by simp
  show ?case
  proof (cases "param_name p = ''self''")
    case True
    have "\<forall>q \<in> set ps. param_name q \<notin> set (map fst properties)"
      using Cons.prems(3) by simp
    from Cons.IH[OF d ann this, of required] obtain props where
      r: "parameters_loop cleandoc doc ps properties required
             = Inr (props, required @ names_without_default ps)"
      and k: "map fst props = map fst properties @ builder_names ps"
      and o: "\<forall>n. n \<notin> set (builder_names ps) \<longrightarrow> dict_get props n = dict_get properties n"
      and t: "\<forall>q \<in> set ps. param_name q \<noteq> ''self'' \<longrightarrow>
                 (\<exists>items. dict_get props (param_name q) = Some (JObj items)
                    \<and> dict_get items ''type''
                        = Some (JStr (expected_json_type (param_annotation q))))"
      by blast
    show ?thesis
      using True r k o t
      by (intro exI[of _ props]) (simp add: names_without_default_def builder_names_def)
  next
    case False
    have "basic_annotation (param_annotation p) \<or> unrecognized_annotation (param_annotation p)"
      and ord: "ordinary_default p"
      using Cons.prems(2) False by simp_all
    from param_schema_expected[OF this(1), of cleandoc doc] obtain items where
      s: "param_schema cleandoc doc p = Inr (JObj items)"
      and ty: "dict_get items ''type'' = Some (JStr (expected_json_type (param_annotation p)))"
      by blast
    define properties1 where "properties1 = dict_set properties (param_name p) (JObj items)"
    define required1 where
      "required1 = (if param_default p = None then required @ [param_name p] else required)"
    have notin: "param_name p \<notin> set (map fst properties)"
      using Cons.prems(3) by simp
    have keys1: "map fst properties1 = map fst properties @ [param_name p]"
      using notin by (simp add: properties1_def dict_set_keys)
    have "\<forall>q \<in> set ps. param_name q \<notin> set (map fst properties1)"
      using Cons.prems(3) fresh by (auto simp: keys1 image_iff)
    from Cons.IH[OF d ann this, of required1] obtain props where
      r: "parameters_loop cleandoc doc ps properties1 required1
             = Inr (props, required1 @ names_without_default ps)"
      and k: "map fst props = map fst properties1 @ builder_names ps"
      and o: "\<forall>n. n \<notin> set (builder_names ps) \<longrightarrow> dict_get props n = dict_get properties1 n"
      and t: "\<forall>q \<in> set ps. param_name q \<noteq> ''self'' \<longrightarrow>
                 (\<exists>items. dict_get props (param_name q) = Some (JObj items)
                    \<and> dict_get items ''type''
                        = Some (JStr (expected_json_type (param_annotation q))))"
      by blast
    have res: "parameters_loop cleandoc doc (p # ps) properties required
             = Inr (props, required @ names_without_default (p # ps))"
      using False s r
      by (cases "param_default p = None")
         (auto simp: properties1_def required1_def names_without_default_def
            ordinary_default_equals_empty[OF ord])
    have keys: "map fst props = map fst properties @ builder_names (p # ps)"
      using False k keys1 by (simp add: builder_names_def)
    have pn: "param_name p \<notin> set (builder_names ps)"
      using fresh by (auto simp: builder_names_def)
    have other: "\<forall>n. n \<notin> set (builder_names (p # ps)) \<longrightarrow> dict_get props n = dict_get properties n"
      using False o by (auto simp: builder_names_def properties1_def dict_get_dict_set)
    have here: "dict_get props (param_name p) = Some (JObj items)"
      using o pn by (simp add: properties1_def dict_get_dict_set)
    show ?thesis
      using res keys other here ty t
      by (intro exI[of _ props]) auto
  qed
qed

text \<open>
  C8 (as stated). Three callables. The first has the parameters \<open>self: str\<close> and \<open>x: int\<close>,
  both without default: every parameter is annotated with a basic type, but the builder
  skips the parameter named \<open>self\<close>, so that parameter is neither a property nor required.
  The second has one parameter \<open>meta: Annotated[dict, 'm']\<close>: the annotation is not named in
  the mapping table (its name is \<open>Annotated\<close>), yet the builder does not degrade to the
  string schema: the origin of the annotation is \<open>dict\<close> and it has one argument, so
  unpacking a key type and a value type raises \<open>ValueError\<close>. The third has one parameter
  \<open>city: str = mock.ANY\<close>, a default that compares equal to everything: the parameter has a
  default value and is listed as required.
\<close>

theorem descriptor_builder_skips_self_counterexample:
  "parameters_from_type_hints (\<lambda>doc. doc)
     \<lparr>func_name = ''lookup'', func_doc = None,
      func_params =
        [\<lparr>param_name = ''self'', param_kind = POSITIONAL_OR_KEYWORD,
          param_annotation = class_type ''str'', param_default = None\<rparr>,
         \<lparr>param_name = ''x'', param_kind = POSITIONAL_OR_KEYWORD,
          param_annotation = class_type ''int'', param_default = None\<rparr>],
      func_return = empty_annotation, func_call = (\<lambda>kwargs. Returns JNull)\<rparr>
   = Inr (JObj [(''type'', JStr ''object''),
                (''properties'', JObj [(''x'', JObj [(''type'', JStr ''integer'')])]),
                (''required'', JArr [JStr ''x''])])
   \<and> dict_get type_mapping ''Annotated'' = None
   \<and> parameters_from_type_hints (\<lambda>doc. doc)
     \<lparr>func_name = ''store'', func_doc = None,
      func_params =
        [\<lparr>param_name = ''meta'', param_kind = POSITIONAL_OR_KEYWORD,
          param_annotation =
            PyType ''Annotated'' ''typing.Annotated[dict, 'm']'' (Some DictOrigin)
              (Some [class_type ''dict'']),
          param_default = None\<rparr>],
      func_return = empty_annotation, func_call = (\<lambda>kwargs. Returns JNull)\<rparr>
   = Inl (ValueError ''wrong number of values to unpack'')
   \<and> parameters_from_type_hints (\<lambda>doc. doc)
     \<lparr>func_name = ''get_weather'', func_doc = None,
      func_params =
        [\<lparr>param_name = ''city'', param_kind = POSITIONAL_OR_KEYWORD,
          param_annotation = class_type ''str'',
          param_default = Some (Default ''<ANY>'' CompareTrue)\<rparr>],
      func_return = empty_annotation, func_call = (\<lambda>kwargs. Returns JNull)\<rparr>
   = Inr (JObj [(''type'', JStr ''object''),
                (''properties'', JObj [(''city'', JObj [(''type'', JStr ''string'')])]),
                (''required'', JArr [JStr ''city''])])"
  by code_simp

text \<open>
  C8 (amended). Take a callable whose parameters have distinct names and whose parameters
  other than \<open>self\<close> are each annotated with one of \<open>str\<close>, \<open>int\<close>, \<open>float\<close>, \<open>bool\<close> or with an
  unrecognized annotation (one that, once an \<open>Optional\<close> is unwrapped, is not named in the
  mapping table and is not a \<open>list\<close> or \<open>dict\<close> alias with arguments), and have no default
  or a default that compares unequal to the no-default marker. The builder raises no
  exception and returns a schema whose properties are the parameters other than \<open>self\<close>,
  in order; each of them is typed by the mapping table (\<open>str\<close> to string, \<open>int\<close> to
  integer, \<open>float\<close> to number, \<open>bool\<close> to boolean) or, for an unrecognized annotation, as
  string; the required list holds exactly the parameters other than \<open>self\<close> that have no
  default value, so all of them when none has a default.
\<close>

theorem descriptor_builder_schema:
  assumes "distinct (map param_name (func_params f))"
    and "\<forall>p \<in> set (func_params f). param_name p \<noteq> ''self'' \<longrightarrow>
           (basic_annotation (param_annotation p) \<or> unrecognized_annotation (param_annotation p))
           \<and> ordinary_default p"
  shows "\<exists>props.
           parameters_from_type_hints cleandoc f
             = Inr (JObj [(''type'', JStr ''object''),
                          (''properties'', JObj props),
                          (''required'', JArr (map JStr (names_without_default (func_params f))))])
         \<and> map fst props = builder_names (func_params f)
         \<and> (\<forall>p \<in> set (func_params f). param_name p \<noteq> ''self'' \<longrightarrow>
               (\<exists>items. dict_get props (param_name p) = Some (JObj items)
                  \<and> dict_get items ''type''
                      = Some (JStr (expected_json_type (param_annotation p)))))
         \<and> ((\<forall>p \<in> set (func_params f). param_default p = None) \<longrightarrow>
               names_without_default (func_params f) = builder_names (func_params f))"
proof -
  from parameters_loop_result[OF assms, of "[]" cleandoc "func_doc f" "[]"]
  obtain props where
    r: "parameters_loop cleandoc (func_doc f) (func_params f) [] []
          = Inr (props, names_without_default (func_params f))"
    and k: "map fst props = builder_names (func_params f)"
    and t: "\<forall>p \<in> set (func_params f). param_name p \<noteq> ''self'' \<longrightarrow>
               (\<exists>items. dict_get props (param_name p) = Some (JObj items)
                  \<and> dict_get items ''type''
                      = Some (JStr (expected_json_type (param_annotation p))))"
    by auto
  have all: "(\<forall>p \<in> set ps. param_default p = None) \<longrightarrow>
               names_without_default ps = builder_names ps" for ps
    by (induction ps) (auto simp: names_without_default_def builder_names_def)
  show ?thesis
    using r k t all[of "func_params f"]
    by (intro exI[of _ props]) (simp add: parameters_from_type_hints_def)
qed

theorem descriptor_builder_schema_witness:
  "\<exists>props.
     parameters_from_type_hints (\<lambda>doc. doc)
       \<lparr>func_name = ''search'', func_doc = None,
        func_params =
          [\<lparr>param_name = ''self'', param_kind = POSITIONAL_OR_KEYWORD,
            param_annotation = empty_annotation, param_default = None\<rparr>,
           \<lparr>param_name = ''query'', param_kind = POSITIONAL_OR_KEYWORD,
            param_annotation = class_type ''str'', param_default = None\<rparr>,
           \<lparr>param_name = ''threshold'', param_kind = POSITIONAL_OR_KEYWORD,
            param_annotation = class_type ''float'', param_default = None\<rparr>,
           \<lparr>param_name = ''exact'', param_kind = POSITIONAL_OR_KEYWORD,
            param_annotation = class_type ''bool'', param_default = None\<rparr>,
           \<lparr>param_name = ''context'', param_kind = POSITIONAL_OR_KEYWORD,
            param_annotation = PyType ''Any'' ''Any'' None None, param_default = None\<rparr>,
           \<lparr>param_name = ''span'', param_kind = POSITIONAL_OR_KEYWORD,
            param_annotation =
              PyType ''Tuple'' ''Tuple[int, str]'' (Some OtherOrigin)
                (Some [class_type ''int'', class_type ''str'']),
            param_default = None\<rparr>,
           \<lparr>param_name = ''limit'', param_kind = POSITIONAL_OR_KEYWORD,
            param_annotation = class_type ''int'',
            param_default = Some (Default ''10'' CompareFalse)\<rparr>],
        func_return = empty_annotation, func_call = (\<lambda>kwargs. Returns JNull)\<rparr>
     = Inr (JObj [(''type'', JStr ''object''),
                  (''properties'', JObj props),
                  (''required'', JArr [JStr ''query'', JStr ''threshold'', JStr ''exact'',
                                       JStr ''context'', JStr ''span''])])
   \<and> map fst props = [''query'', ''threshold'', ''exact'', ''context'', ''span'', ''limit'']
   \<and> (\<exists>items. dict_get props ''span'' = Some (JObj items)
          \<and> dict_get items ''type'' = Some (JStr ''string''))
   \<and> (\<exists>items. dict_get props ''limit'' = Some (JObj items)
          \<and> dict_get items ''type'' = Some (JStr ''integer''))"
proof -
  define span where "span =
     \<lparr>param_name = ''span'', param_kind = POSITIONAL_OR_KEYWORD,
      param_annotation =
        PyType ''Tuple'' ''Tuple[int, str]'' (Some OtherOrigin)
          (Some [class_type ''int'', class_type ''str'']),
      param_default = None\<rparr>"
  define limit where "limit =
     \<lparr>param_name = ''limit'', param_kind = POSITIONAL_OR_KEYWORD,
      param_annotation = class_type ''int'',
      param_default = Some (Default ''10'' CompareFalse)\<rparr>"
  define f where "f =
       \<lparr>func_name = ''search'', func_doc = None,
        func_params =
          [\<lparr>param_name = ''self'', param_kind = POSITIONAL_OR_KEYWORD,
            param_annotation = empty_annotation, param_default = None\<rparr>,
           \<lparr>param_name = ''query'', param_kind = POSITIONAL_OR_KEYWORD,
            param_annotation = class_type ''str'', param_default = None\<rparr>,
           \<lparr>param_name = ''threshold'', param_kind = POSITIONAL_OR_KEYWORD,
            param_annotation = class_type ''float'', param_default = None\<rparr>,
           \<lparr>param_name = ''exact'', param_kind = POSITIONAL_OR_KEYWORD,
            param_annotation = class_type ''bool'', param_default = None\<rparr>,
           \<lparr>param_name = ''context'', param_kind = POSITIONAL_OR_KEYWORD,
            param_annotation = PyType ''Any'' ''Any'' None None, param_default = None\<rparr>,
           span, limit],
        func_return = empty_annotation, func_call = (\<lambda>kwargs. Returns JNull)\<rparr>"
  have h1: "distinct (map param_name (func_params f))"
    by (simp add: f_def span_def limit_def)
  have "list_all (\<lambda>p. param_name p \<noteq> ''self'' \<longrightarrow>
           (basic_annotation (param_annotation p) \<or> unrecognized_annotation (param_annotation p))
           \<and> ordinary_default p) (func_params f)"
    unfolding f_def span_def limit_def by code_simp
  then have h2: "\<forall>p \<in> set (func_params f). param_name p \<noteq> ''self'' \<longrightarrow>
           (basic_annotation (param_annotation p) \<or> unrecognized_annotation (param_annotation p))
           \<and> ordinary_default p"
    by (simp only: list_all_iff)
  have n1: "names_without_default (func_params f)
              = [''query'', ''threshold'', ''exact'', ''context'', ''span'']"
    unfolding f_def span_def limit_def by code_simp
  have n2: "builder_names (func_params f)
              = [''query'', ''threshold'', ''exact'', ''context'', ''span'', ''limit'']"
    unfolding f_def span_def limit_def by code_simp
  have e1: "expected_json_type (param_annotation span) = ''string''"
    unfolding span_def by code_simp
  have e2: "expected_json_type (param_annotation limit) = ''integer''"
    unfolding limit_def by code_simp
  have m1: "span \<in> set (func_params f)" "param_name span = ''span''"
    and m2: "limit \<in> set (func_params f)" "param_name limit = ''limit''"
    by (simp_all add: f_def span_def limit_def)
  from descriptor_builder_schema[OF h1 h2, of "\<lambda>doc. doc"]
  obtain props where
    r: "parameters_from_type_hints (\<lambda>doc. doc) f
          = Inr (JObj [(''type'', JStr ''object''),
                       (''properties'', JObj props),
                       (''required'', JArr (map JStr (names_without_default (func_params f))))])"
    and k: "map fst props = builder_names (func_params f)"
    and t: "\<forall>p \<in> set (func_params f). param_name p \<noteq> ''self'' \<longrightarrow>
               (\<exists>items. dict_get props (param_name p) = Some (JObj items)
                  \<and> dict_get items ''type''
                      = Some (JStr (expected_json_type (param_annotation p))))"
    by blast
  have s1: "\<exists>items. dict_get props ''span'' = Some (JObj items)
          \<and> dict_get items ''type'' = Some (JStr ''string'')"
    using bspec[OF t m1(1)] unfolding m1(2) e1 by simp
  have s2: "\<exists>items. dict_get props ''limit'' = Some (JObj items)
          \<and> dict_get items ''type'' = Some (JStr ''integer'')"
    using bspec[OF t m2(1)] unfolding m2(2) e2 by simp
  have r1: "parameters_from_type_hints (\<lambda>doc. doc) f
          = Inr (JObj [(''type'', JStr ''object''),
                       (''properties'', JObj props),
                       (''required'', JArr [JStr ''query'', JStr ''threshold'', JStr ''exact'',
                                            JStr ''context'', JStr ''span''])])"
    using r unfolding n1 by simp
  have k1: "map fst props = [''query'', ''threshold'', ''exact'', ''context'', ''span'', ''limit'']"
    using k unfolding n2 .
  have "\<exists>props. parameters_from_type_hints (\<lambda>doc. doc) f
          = Inr (JObj [(''type'', JStr ''object''),
                       (''properties'', JObj props),
                       (''required'', JArr [JStr ''query'', JStr ''threshold'', JStr ''exact'',
                                            JStr ''context'', JStr ''span''])])
   \<and> map fst props = [''query'', ''threshold'', ''exact'', ''context'', ''span'', ''limit'']
   \<and> (\<exists>items. dict_get props ''span'' = Some (JObj items)
          \<and> dict_get items ''type'' = Some (JStr ''string''))
   \<and> (\<exists>items. dict_get props ''limit'' = Some (JObj items)
          \<and> dict_get items ''type'' = Some (JStr ''integer''))"
    by (rule exI[of _ props]) (rule conjI r1 k1 s1 s2)+
  then show ?thesis
    unfolding f_def span_def limit_def .
qed

lemma starts_with_append: "starts_with x k \<Longrightarrow> starts_with (x @ post) k"
  by (induction x k rule: starts_with.induct) auto

lemma starts_with_contains: "starts_with y k \<Longrightarrow> str_contains y k"
  by (cases y; cases k) auto

lemma str_contains_prepend: "str_contains y k \<Longrightarrow> str_contains (pre @ y) k"
  by (induction pre) auto

lemma join_member:
  "x \<in> set parts \<Longrightarrow> \<exists>pre post. join sep parts = pre @ x @ post"
proof (induction sep parts rule: join.induct)
  case (1 sep)
  then show ?case by simp
next
  case (2 sep y)
  then have "join sep [y] = [] @ x @ []" by simp
  then show ?case by blast
next
  case (3 sep y z rest)
  show ?case
  proof (cases "x = y")
    case True
    then have "join sep (y # z # rest) = [] @ x @ (sep @ join sep (z # rest))" by simp
    then show ?thesis by blast
  next
    case False
    with 3 obtain pre post where "join sep (z # rest) = pre @ x @ post" by auto
    then have "join sep (y # z # rest) = (y @ sep @ pre) @ x @ post" by simp
    then show ?thesis by blast
  qed
qed

lemma format_param_rendered:
  "p \<in> set ps \<Longrightarrow> format_param p \<in> set (render_params ps pos_sep kw_sep)"
  by (induction ps arbitrary: pos_sep kw_sep) (auto simp: Let_def)

lemma var_keyword_printed:
  "param_kind p = VAR_KEYWORD \<Longrightarrow> starts_with (format_param p) ''**''"
  by (simp add: format_param_def Let_def)

lemma kwargs_signature_has_two_stars:
  assumes "p \<in> set (func_params f)" and "param_kind p = VAR_KEYWORD"
  shows "str_contains (signature_str f) ''**''"
proof -
  obtain pre post where
    j: "join '', '' (render_params (func_params f) False True) = pre @ format_param p @ post"
    using join_member[OF format_param_rendered[OF assms(1)]] by blast
  define tail where "tail = post @ '')''
       @ (if func_return f \<noteq> empty_annotation
          then '' -> '' @ type_printed (func_return f) else [])"
  have s: "signature_str f = (''('' @ pre) @ (format_param p @ tail)"
    by (simp add: signature_str_def j tail_def)
  have "str_contains (format_param p @ tail) ''**''"
    using starts_with_contains[OF starts_with_append[OF var_keyword_printed[OF assms(2)]]] .
  then show ?thesis
    unfolding s by (rule str_contains_prepend)
qed

lemma required_not_validated:
  "validate_signature \<lparr>name = n, description = d,
                       parameters = JObj (dict_set items ''required'' r), func = f\<rparr>
     = validate_signature \<lparr>name = n, description = d, parameters = JObj items, func = f\<rparr>"
  by (simp add: validate_signature_def schema_property_names_def dict_get_default_def
      dict_get_dict_set Let_def split: sum.splits)

text \<open>
  C7 (as stated). The handler \<open>get_weather(location, days=3)\<close> with a schema whose
  properties are \<open>location\<close> and \<open>days\<close> but whose required list is \<open>["days"]\<close>: the
  required list names the parameter that has a default and omits the one that has none.
  The constructor raises nothing, and the registry accepts the tool.
\<close>

theorem tool_required_mismatch_counterexample:
  "make_Tool ''get_weather'' ''Get the weather''
     (JObj [(''type'', JStr ''object''),
            (''properties'', JObj [(''location'', JObj [(''type'', JStr ''string'')]),
                                   (''days'', JObj [(''type'', JStr ''integer'')])]),
            (''required'', JArr [JStr ''days''])])
     \<lparr>func_name = ''get_weather'', func_doc = Some ''Get the weather'',
      func_params =
        [\<lparr>param_name = ''location'', param_kind = POSITIONAL_OR_KEYWORD,
          param_annotation = class_type ''str'', param_default = None\<rparr>,
         \<lparr>param_name = ''days'', param_kind = POSITIONAL_OR_KEYWORD,
          param_annotation = class_type ''int'', param_default = Some (Default ''3'' CompareFalse)\<rparr>],
      func_return = empty_annotation, func_call = (\<lambda>kwargs. Returns JNull)\<rparr>
   = Inr \<lparr>name = ''get_weather'', description = ''Get the weather'',
          parameters =
            JObj [(''type'', JStr ''object''),
                  (''properties'', JObj [(''location'', JObj [(''type'', JStr ''string'')]),
                                         (''days'', JObj [(''type'', JStr ''integer'')])]),
                  (''required'', JArr [JStr ''days''])],
          func =
            \<lparr>func_name = ''get_weather'', func_doc = Some ''Get the weather'',
             func_params =
               [\<lparr>param_name = ''location'', param_kind = POSITIONAL_OR_KEYWORD,
                 param_annotation = class_type ''str'', param_default = None\<rparr>,
                \<lparr>param_name = ''days'', param_kind = POSITIONAL_OR_KEYWORD,
                 param_annotation = class_type ''int'', param_default = Some (Default ''3'' CompareFalse)\<rparr>],
             func_return = empty_annotation, func_call = (\<lambda>kwargs. Returns JNull)\<rparr>\<rparr>
   \<and> map_sum id (map fst)
       (register (\<lambda>doc. doc) []
         (AsCallable
            \<lparr>func_name = ''get_weather'', func_doc = Some ''Get the weather'',
             func_params =
               [\<lparr>param_name = ''location'', param_kind = POSITIONAL_OR_KEYWORD,
                 param_annotation = class_type ''str'', param_default = None\<rparr>,
                \<lparr>param_name = ''days'', param_kind = POSITIONAL_OR_KEYWORD,
                 param_annotation = class_type ''int'', param_default = Some (Default ''3'' CompareFalse)\<rparr>],
             func_return = empty_annotation, func_call = (\<lambda>kwargs. Returns JNull)\<rparr>
            None None
            (Some (JObj [(''type'', JStr ''object''),
                  (''properties'', JObj [(''location'', JObj [(''type'', JStr ''string'')]),
                                         (''days'', JObj [(''type'', JStr ''integer'')])]),
                  (''required'', JArr [JStr ''days''])]))))
     = Inr [''get_weather'']
   \<and> names_without_default
        [\<lparr>param_name = ''location'', param_kind = POSITIONAL_OR_KEYWORD,
          param_annotation = class_type ''str'', param_default = None\<rparr>,
         \<lparr>param_name = ''days'', param_kind = POSITIONAL_OR_KEYWORD,
          param_annotation = class_type ''int'', param_default = Some (Default ''3'' CompareFalse)\<rparr>]
     = [''location'']"
  by (simp add: make_Tool_def validate_signature_def schema_property_names_def
      dict_get_default_def register_def from_function_def names_without_default_def)

text \<open>
  C7 (amended). For a schema whose properties form a dict, constructing a Tool raises
  \<open>ToolError\<close> if and only if some schema property is not a declared parameter of the
  handler, or some declared parameter is not a schema property while the printed
  signature contains no \<open>**\<close>; a handler that declares \<open>**kwargs\<close> always prints one.
  Otherwise the Tool is constructed. The required list of the schema takes no part in the
  validation. Registering a callable registers the constructed Tool under its name, and
  registers nothing when the construction raises.
\<close>

theorem tool_construction_amended:
  assumes "schema_property_names ps = Inr props"
  shows "(\<exists>msg. make_Tool n d ps f = Inl (ToolError msg))
           = (\<not> set props \<subseteq> set (map param_name (func_params f))
              \<or> (\<not> set (map param_name (func_params f)) \<subseteq> set props
                  \<and> \<not> str_contains (signature_str f) ''**''))
       \<and> (make_Tool n d ps f = Inr \<lparr>name = n, description = d, parameters = ps, func = f\<rparr>)
           = (set props \<subseteq> set (map param_name (func_params f))
              \<and> (set (map param_name (func_params f)) \<subseteq> set props
                  \<or> str_contains (signature_str f) ''**''))
       \<and> (list_ex (\<lambda>p. param_kind p = VAR_KEYWORD) (func_params f)
            \<longrightarrow> str_contains (signature_str f) ''**'')
       \<and> register cleandoc tools (AsCallable f (Some n) (Some d) (Some ps))
           = (case make_Tool n d ps f of
                Inl e \<Rightarrow> Inl e
              | Inr tool \<Rightarrow> Inr (dict_set tools n tool))
       \<and> validate_signature \<lparr>name = n, description = d,
                              parameters = JObj (dict_set items ''required'' r), func = f\<rparr>
           = validate_signature \<lparr>name = n, description = d, parameters = JObj items,
                                 func = f\<rparr>"
proof -
  have filt: "(filter (\<lambda>x. x \<notin> set ys) xs \<noteq> []) = (\<not> set xs \<subseteq> set ys)" for xs ys :: "string list"
    by (auto simp: filter_empty_conv)
  have a: "(\<exists>msg. make_Tool n d ps f = Inl (ToolError msg))
           = (\<not> set props \<subseteq> set (map param_name (func_params f))
              \<or> (\<not> set (map param_name (func_params f)) \<subseteq> set props
                  \<and> \<not> str_contains (signature_str f) ''**''))"
    using assms
    by (auto simp: make_Tool_def validate_signature_def Let_def filt simp del: set_map)
  have b: "(make_Tool n d ps f = Inr \<lparr>name = n, description = d, parameters = ps, func = f\<rparr>)
           = (set props \<subseteq> set (map param_name (func_params f))
              \<and> (set (map param_name (func_params f)) \<subseteq> set props
                  \<or> str_contains (signature_str f) ''**''))"
    using assms
    by (auto simp: make_Tool_def validate_signature_def Let_def filt simp del: set_map)
  have c: "list_ex (\<lambda>p. param_kind p = VAR_KEYWORD) (func_params f)
            \<longrightarrow> str_contains (signature_str f) ''**''"
    using kwargs_signature_has_two_stars by (auto simp: list_ex_iff)
  have e: "register cleandoc tools (AsCallable f (Some n) (Some d) (Some ps))
           = (case make_Tool n d ps f of
                Inl e \<Rightarrow> Inl e
              | Inr tool \<Rightarrow> Inr (dict_set tools n tool))"
    by (auto simp: register_def from_function_def make_Tool_def Let_def split: sum.splits)
  show ?thesis
    using a b c e required_not_validated by blast
qed

theorem tool_construction_amended_witness:
  "schema_property_names
     (JObj [(''type'', JStr ''object''),
            (''properties'', JObj [(''location'', JObj [(''type'', JStr ''string'')])]),
            (''required'', JArr [JStr ''location''])])
     = Inr [''location'']
   \<and> list_ex (\<lambda>p. param_kind p = VAR_KEYWORD)
        [\<lparr>param_name = ''location'', param_kind = POSITIONAL_OR_KEYWORD,
          param_annotation = class_type ''str'', param_default = None\<rparr>,
         \<lparr>param_name = ''days'', param_kind = POSITIONAL_OR_KEYWORD,
          param_annotation = class_type ''int'', param_default = Some (Default ''3'' CompareFalse)\<rparr>,
         \<lparr>param_name = ''kwargs'', param_kind = VAR_KEYWORD,
          param_annotation = empty_annotation, param_default = None\<rparr>]
   \<and> make_Tool ''get_weather'' ''Get the weather''
       (JObj [(''type'', JStr ''object''),
              (''properties'', JObj [(''location'', JObj [(''type'', JStr ''string'')])]),
              (''required'', JArr [JStr ''location''])])
       \<lparr>func_name = ''get_weather'', func_doc = Some ''Get the weather'',
        func_params =
          [\<lparr>param_name = ''location'', param_kind = POSITIONAL_OR_KEYWORD,
            param_annotation = class_type ''str'', param_default = None\<rparr>,
           \<lparr>param_name = ''days'', param_kind = POSITIONAL_OR_KEYWORD,
            param_annotation = class_type ''int'', param_default = Some (Default ''3'' CompareFalse)\<rparr>,
           \<lparr>param_name = ''kwargs'', param_kind = VAR_KEYWORD,
            param_annotation = empty_annotation, param_default = None\<rparr>],
        func_return = empty_annotation, func_call = (\<lambda>kwargs. Returns JNull)\<rparr>
     = Inr \<lparr>name = ''get_weather'', description = ''Get the weather'',
            parameters =
              JObj [(''type'', JStr ''object''),
                    (''properties'', JObj [(''location'', JObj [(''type'', JStr ''string'')])]),
                    (''required'', JArr [JStr ''location''])],
            func =
              \<lparr>func_name = ''get_weather'', func_doc = Some ''Get the weather'',
               func_params =
                 [\<lparr>param_name = ''location'', param_kind = POSITIONAL_OR_KEYWORD,
                   param_annotation = class_type ''str'', param_default = None\<rparr>,
                  \<lparr>param_name = ''days'', param_kind = POSITIONAL_OR_KEYWORD,
                   param_annotation = class_type ''int'', param_default = Some (Default ''3'' CompareFalse)\<rparr>,
                  \<lparr>param_name = ''kwargs'', param_kind = VAR_KEYWORD,
                   param_annotation = empty_annotation, param_default = None\<rparr>],
               func_return = empty_annotation, func_call = (\<lambda>kwargs. Returns JNull)\<rparr>\<rparr>"
proof -
  define f where "f =
       \<lparr>func_name = ''get_weather'', func_doc = Some ''Get the weather'',
        func_params =
          [\<lparr>param_name = ''location'', param_kind = POSITIONAL_OR_KEYWORD,
            param_annotation = class_type ''str'', param_default = None\<rparr>,
           \<lparr>param_name = ''days'', param_kind = POSITIONAL_OR_KEYWORD,
            param_annotation = class_type ''int'', param_default = Some (Default ''3'' CompareFalse)\<rparr>,
           \<lparr>param_name = ''kwargs'', param_kind = VAR_KEYWORD,
            param_annotation = empty_annotation, param_default = None\<rparr>],
        func_return = empty_annotation, func_call = (\<lambda>kwargs. Returns JNull)\<rparr>"
  define ps where "ps =
       JObj [(''type'', JStr ''object''),
              (''properties'', JObj [(''location'', JObj [(''type'', JStr ''string'')])]),
              (''required'', JArr [JStr ''location''])]"
  have h: "schema_property_names ps = Inr [''location'']"
    by (simp add: ps_def schema_property_names_def dict_get_default_def)
  have k: "list_ex (\<lambda>p. param_kind p = VAR_KEYWORD) (func_params f)"
    by (simp add: f_def)
  have sub: "set [''location''] \<subseteq> set (map param_name (func_params f))"
    by (simp add: f_def)
  note t = tool_construction_amended[OF h, of "''get_weather''" "''Get the weather''" f]
  from t k have stars: "str_contains (signature_str f) ''**''" by blast
  from t sub stars have
    "make_Tool ''get_weather'' ''Get the weather'' ps f
       = Inr \<lparr>name = ''get_weather'', description = ''Get the weather'', parameters = ps,
              func = f\<rparr>"
    by blast
  with h k show ?thesis
    unfolding f_def ps_def by simp
qed

section \<open>Properties of the agent loop\<close>


lemma create_completion_trace:
  "\<exists>req. trace (snd (create_completion cl a tools)) = trace a @ [Request req]
         \<and> messages (snd (create_completion cl a tools)) = messages a
         \<and> tool_registry (snd (create_completion cl a tools)) = tool_registry a"
  by (auto simp: create_completion_def Let_def split: sum.splits list.splits)

lemma dispatch_tool_call_trace:
  "\<exists>runs. trace (snd (dispatch_tool_call jl jd tc a))
            = trace a @ map (\<lambda>(n, kw). ToolRun n kw) runs"
proof -
  have "trace (snd (dispatch_tool_call jl jd tc a)) = trace a @ map (\<lambda>(n, kw). ToolRun n kw) []
      \<or> (\<exists>kw. trace (snd (dispatch_tool_call jl jd tc a))
              = trace a @ map (\<lambda>(n, kw). ToolRun n kw) [(call_name tc, kw)])"
    by (auto simp: dispatch_tool_call_def Let_def
        split: option.splits json.splits sum.splits call_result.splits if_splits)
  then show ?thesis by blast
qed

lemma dispatch_tool_calls_trace:
  "\<exists>runs. trace (snd (dispatch_tool_calls jl jd calls a))
            = trace a @ map (\<lambda>(n, kw). ToolRun n kw) runs"
proof (induction calls arbitrary: a)
  case Nil
  have "trace (snd (dispatch_tool_calls jl jd [] a))
          = trace a @ map (\<lambda>(n, kw). ToolRun n kw) []" by simp
  then show ?case by blast
next
  case (Cons tc rest)
  obtain r a' where d: "dispatch_tool_call jl jd tc a = (r, a')"
    by (cases "dispatch_tool_call jl jd tc a")
  obtain runs1 where t1: "trace a' = trace a @ map (\<lambda>(n, kw). ToolRun n kw) runs1"
    using dispatch_tool_call_trace[of jl jd tc a] d by auto
  show ?case
  proof (cases r)
    case (Some e)
    then show ?thesis using d t1 by auto
  next
    case None
    obtain runs2 where
      "trace (snd (dispatch_tool_calls jl jd rest a'))
         = trace a' @ map (\<lambda>(n, kw). ToolRun n kw) runs2"
      using Cons.IH[of a'] by blast
    then have "trace (snd (dispatch_tool_calls jl jd (tc # rest) a))
         = trace a @ map (\<lambda>(n, kw). ToolRun n kw) (runs1 @ runs2)"
      using d None t1 by simp
    then show ?thesis by blast
  qed
qed

lemma tool_runs_are_no_requests:
  "filter is_request (map (\<lambda>(n, kw). ToolRun n kw) runs) = []"
  by (induction runs) auto

text \<open>
  C1. In every turn, whatever the completion client answers and whatever the tools do, the
  trace of the turn is: one completion request, then the tool runs of the dispatch phase,
  then at most one further completion request, after which nothing follows: no third
  request and no tool run, also when the second response carries tool calls. So at most
  two completion requests are issued.
\<close>

theorem at_most_two_completion_requests:
  "\<exists>req1 runs rest.
      trace (snd (GPTChatAgent_run cl json_loads json_dumps a0 user_message))
        = trace a0 @ [Request req1] @ map (\<lambda>(n, kw). ToolRun n kw) runs @ rest
    \<and> (rest = [] \<or> (\<exists>req2. rest = [Request req2]))
    \<and> length (filter is_request
          (drop (length (trace a0))
             (trace (snd (GPTChatAgent_run cl json_loads json_dumps a0 user_message))))) \<le> 2"
proof -
  define a1 where "a1 = a0\<lparr>messages := messages a0 @ [UserMessage user_message]\<rparr>"
  define tools where "tools = Some (map to_dict (map snd (tool_registry a1)))"
  obtain r1 a2 where c1: "create_completion cl a1 tools = (r1, a2)"
    by (cases "create_completion cl a1 tools")
  obtain req1 where t2: "trace a2 = trace a0 @ [Request req1]"
    using create_completion_trace[of cl a1 tools] c1 by (auto simp: a1_def)
  have shape: "\<exists>runs rest.
      trace (snd (GPTChatAgent_run cl json_loads json_dumps a0 user_message))
        = trace a0 @ [Request req1] @ map (\<lambda>(n, kw). ToolRun n kw) runs @ rest
    \<and> (rest = [] \<or> (\<exists>req2. rest = [Request req2]))"
  proof (cases r1)
    case (Inl e)
    then have "trace (snd (GPTChatAgent_run cl json_loads json_dumps a0 user_message))
        = trace a0 @ [Request req1] @ map (\<lambda>(n, kw). ToolRun n kw) [] @ []"
      using c1[unfolded a1_def tools_def] t2 by (simp add: GPTChatAgent_run_def Let_def)
    then show ?thesis by blast
  next
    case (Inr rm)
    define a3 where "a3 = a2\<lparr>messages := messages a2 @ [ResponseMessage rm]\<rparr>"
    show ?thesis
    proof (cases "tool_calls rm = None \<or> tool_calls rm = Some []")
      case True
      then have "trace (snd (GPTChatAgent_run cl json_loads json_dumps a0 user_message))
          = trace a0 @ [Request req1] @ map (\<lambda>(n, kw). ToolRun n kw) [] @ []"
        using c1[unfolded a1_def tools_def] t2 Inr
        by (auto simp: GPTChatAgent_run_def Let_def)
      then show ?thesis by blast
    next
      case False
      then obtain tc more where calls: "tool_calls rm = Some (tc # more)"
        by (cases "tool_calls rm") (auto simp: neq_Nil_conv)
      define a4 where "a4 = a3\<lparr>messages := messages a3 @ [AgentToolCalls (tc # more)]\<rparr>"
      obtain r a5 where d: "dispatch_tool_calls json_loads json_dumps (tc # more) a4 = (r, a5)"
        by (cases "dispatch_tool_calls json_loads json_dumps (tc # more) a4")
      obtain runs where t5: "trace a5 = trace a0 @ [Request req1] @ map (\<lambda>(n, kw). ToolRun n kw) runs"
        using dispatch_tool_calls_trace[of json_loads json_dumps "tc # more" a4] d t2
        by (auto simp: a4_def a3_def)
      show ?thesis
      proof (cases r)
        case (Some e)
        then have "trace (snd (GPTChatAgent_run cl json_loads json_dumps a0 user_message))
            = trace a0 @ [Request req1] @ map (\<lambda>(n, kw). ToolRun n kw) runs @ []"
          using c1[unfolded a1_def tools_def] Inr calls d[unfolded a4_def a3_def] t5
          by (simp add: GPTChatAgent_run_def Let_def)
        then show ?thesis by blast
      next
        case None
        obtain r2 a6 where c2: "create_completion cl a5 None = (r2, a6)"
          by (cases "create_completion cl a5 None")
        obtain req2 where t6: "trace a6 = trace a5 @ [Request req2]"
          using create_completion_trace[of cl a5 None] c2 by auto
        have "trace (snd (GPTChatAgent_run cl json_loads json_dumps a0 user_message))
            = trace a0 @ [Request req1] @ map (\<lambda>(n, kw). ToolRun n kw) runs @ [Request req2]"
          using c1[unfolded a1_def tools_def] Inr calls d[unfolded a4_def a3_def] None c2 t5 t6
          by (cases r2) (simp_all add: GPTChatAgent_run_def Let_def)
        then show ?thesis by blast
      qed
    qed
  qed
  then obtain runs rest where
    s: "trace (snd (GPTChatAgent_run cl json_loads json_dumps a0 user_message))
        = trace a0 @ [Request req1] @ map (\<lambda>(n, kw). ToolRun n kw) runs @ rest"
    and r: "rest = [] \<or> (\<exists>req2. rest = [Request req2])"
    by blast
  have "length (filter is_request
          (drop (length (trace a0))
             (trace (snd (GPTChatAgent_run cl json_loads json_dumps a0 user_message))))) \<le> 2"
    using r unfolding s by (auto simp: tool_runs_are_no_requests)
  with s r show ?thesis by blast
qed




end
